theory Spec2Isabelle
  imports Complex_Main
begin

section \<open>Safe Link: rule-based scoring, external reconciliation and ranking\<close>

text \<open>
  A shallow embedding of \<^verbatim>\<open>src/App.tsx\<close> and \<^verbatim>\<open>src/Community.tsx\<close>.
  JavaScript strings are modelled as \<^typ>\<open>string\<close> (lists of 8-bit characters, so the
  model covers ASCII text), JavaScript numbers that only ever hold integers as \<^typ>\<open>int\<close>,
  the confidence ratio as \<^typ>\<open>real\<close>, optional fields and \<^verbatim>\<open>null\<close> as
  \<^typ>\<open>'a option\<close>, and a plain object used as a dictionary as an association list in
  insertion order. What the platform supplies (the \<^verbatim>\<open>URL\<close> constructor, the
  \<^verbatim>\<open>Date\<close> parser, \<^verbatim>\<open>Array.prototype.sort\<close>, the remote lookup, fresh ids
  and the clock) is a parameter of the function that uses it. React state is passed
  explicitly.
\<close>

subsection \<open>String operations of the platform\<close>

definition toLowerChar :: "char \<Rightarrow> char" where
  "toLowerChar c =
     (let n = (of_char c :: nat) in if 65 \<le> n \<and> n \<le> 90 then char_of (n + 32) else c)"

definition toLowerCase :: "string \<Rightarrow> string" where
  "toLowerCase s = map toLowerChar s"

definition startsWith :: "string \<Rightarrow> string \<Rightarrow> bool" where
  "startsWith s p = (take (length p) s = p)"

text \<open>\<^verbatim>\<open>s.includes(p)\<close>: \<open>p\<close> occurs in \<open>s\<close> as a contiguous substring.\<close>

fun str_includes :: "string \<Rightarrow> string \<Rightarrow> bool" where
  "str_includes [] p = (p = [])"
| "str_includes (c # cs) p = (startsWith (c # cs) p \<or> str_includes cs p)"

text \<open>\<^verbatim>\<open>s.split(sep)\<close> for a one-character separator; the result is never empty.\<close>

fun split :: "char \<Rightarrow> string \<Rightarrow> string list" where
  "split sep [] = [[]]"
| "split sep (c # cs) =
     (if c = sep then [] # split sep cs
      else (case split sep cs of [] \<Rightarrow> [[c]] | p # ps \<Rightarrow> (c # p) # ps))"

text \<open>
  Every regular expression of the source is an alternation of literal strings, so
  \<^verbatim>\<open>/(a|b|c)/.test(s)\<close> holds when one of the literals occurs in \<open>s\<close>. With the
  flag \<^verbatim>\<open>i\<close> the match ignores case; the literals are all lower case, so the subject
  is lowered first.
\<close>

definition regexTest :: "string list \<Rightarrow> string \<Rightarrow> bool" where
  "regexTest alts s = list_ex (str_includes s) alts"

definition regexTestI :: "string list \<Rightarrow> string \<Rightarrow> bool" where
  "regexTestI alts s = regexTest alts (toLowerCase s)"

subsection \<open>Data model\<close>

datatype Tier = HighRisk | BeCareful | Safe

datatype Reaction = Like | Dislike

record Comment =
  comment_id :: string
  comment_text :: string
  comment_timestamp :: string
  userId :: string
  imagesBase64 :: "string list option"

text \<open>One sub-check of the remote response: \<^verbatim>\<open>{status, details, checked?}\<close>.\<close>

record SubCheck =
  checked :: "bool option"
  status :: string
  details :: string

record ApiCheck =
  api_done :: bool
  api_note :: string
  api_checks :: "(string \<times> SubCheck) list option"
  api_failed :: "bool option"

record ScanResult =
  scan_id :: string
  url :: string
  safety :: int
  tier :: Tier
  color :: string
  confidence :: real
  reasons :: "string list"
  breakdown :: "(string \<times> int) list"
  timestamp :: string
  likes :: "int option"
  dislikes :: "int option"
  userReaction :: "Reaction option"
  comments :: "Comment list option"
  showCommentInput :: "bool option"
  newComment :: "string option"
  newCommentImages :: "string list option"
  apiCheck :: "ApiCheck option"
  showCommentError :: "bool option"

text \<open>
  What \<^verbatim>\<open>new URL(s)\<close> yields: the three components the source reads, or \<open>None\<close>
  when the constructor throws.
\<close>

record ParsedUrl =
  hostname :: string
  pathname :: string
  search :: string

type_synonym url_parser = "string \<Rightarrow> ParsedUrl option"

subsection \<open>Helpers\<close>

text \<open>\<^verbatim>\<open>const clamp = (v, a = 0, b = 1e9) => Math.max(a, Math.min(b, v))\<close>\<close>

definition clamp :: "'a::linorder \<Rightarrow> 'a \<Rightarrow> 'a \<Rightarrow> 'a" where
  "clamp v a b = max a (min b v)"

definition isProbablyShortener :: "string \<Rightarrow> bool" where
  "isProbablyShortener host =
     regexTestI [''bit.ly'', ''tinyurl'', ''goo.gl'', ''t.co'', ''ow.ly'', ''buff.ly'',
                 ''rb.gy'', ''short.ly'', ''is.gd''] host"

definition hasUrgentKeywords :: "string \<Rightarrow> bool" where
  "hasUrgentKeywords text =
     regexTestI [''verify'', ''reset'', ''update'', ''confirm'', ''secure'', ''account'',
                 ''login'', ''unauthorized'', ''suspend'', ''password'', ''malware'',
                 ''scam'', ''phish'', ''download'', ''virus''] text"

definition knownSafe :: "string list" where
  "knownSafe = [''google.com'', ''apple.com'', ''microsoft.com'', ''amazon.com'']"

definition mockDomainAgeDays :: "string \<Rightarrow> int" where
  "mockDomainAgeDays host =
     (if regexTestI knownSafe host then 365 * 10
      else if str_includes host ''new-'' \<or> str_includes host ''recent''
              \<or> str_includes host ''young'' then 12
      else if str_includes host ''old-'' \<or> str_includes host ''established'' then 365 * 3
      else min (365 * 3) (max 10 (int (length host) * 20)))"

definition mockHasValidSsl :: "string \<Rightarrow> bool" where
  "mockHasValidSsl u =
     (if regexTest [''selfsigned'', ''invalid-cert'', ''testcert''] u then False
      else \<not> startsWith u ''http://'')"

definition mockIsBlacklisted :: "string \<Rightarrow> bool" where
  "mockIsBlacklisted host =
     regexTestI [''badsite'', ''phish'', ''malicious'', ''malware-download''] host"

definition isShortAndClean :: "string \<Rightarrow> bool" where
  "isShortAndClean host =
     (let parts = split (CHR ''.'') host in
      if regexTestI knownSafe host then True
      else length parts \<le> 3 \<and> length host < 25 \<and> \<not> str_includes host ''-'')"

text \<open>
  \<^verbatim>\<open>parseHost\<close>: the \<^verbatim>\<open>try\<close> branch when the constructor returns, the
  \<^verbatim>\<open>catch\<close> branch (split at the first slash) when it throws.
\<close>

definition parseHost :: "url_parser \<Rightarrow> string \<Rightarrow> string \<times> string" where
  "parseHost URL raw =
     (let normalized = (if startsWith raw ''http'' then raw else ''https://'' @ raw) in
      case URL normalized of
        Some u \<Rightarrow> (hostname u, pathname u @ search u)
      | None \<Rightarrow>
          (let host = (case split (CHR ''/'') raw of [] \<Rightarrow> [] | h # _ \<Rightarrow> h);
               path = (if str_includes raw ''/''
                       then dropWhile (\<lambda>c. c \<noteq> CHR ''/'') raw else [])
           in (host, path)))"

definition mockHasExcessiveRedirects :: "url_parser \<Rightarrow> string \<Rightarrow> bool" where
  "mockHasExcessiveRedirects URL u =
     (regexTestI [''redirect'', ''redir'', ''continue'', ''next='', ''returnurl''] u
      \<or> isProbablyShortener (fst (parseHost URL u)))"

subsection \<open>Scoring\<close>

text \<open>The tier and colour expressions of \<^verbatim>\<open>scoreUrl\<close> (lines 244 and 245).\<close>

definition scoreTier :: "int \<Rightarrow> Tier" where
  "scoreTier s = (if s \<le> 3 then HighRisk else if s \<le> 6 then BeCareful else Safe)"

definition scoreColor :: "int \<Rightarrow> string" where
  "scoreColor s = (if s \<le> 3 then ''#ef4444'' else if s \<le> 6 then ''#f59e0b'' else ''#10b981'')"

text \<open>
  The body of \<^verbatim>\<open>scoreUrl\<close> comes in three parts: the checks (\<open>runChecks\<close>), the
  reasons (\<open>buildReasons\<close>) and the result object (\<open>scoreUrl\<close>).

  The seven checks in source order. Each step assigns one key of the breakdown object
  and adjusts the running score, as the source's \<^verbatim>\<open>if\<close>/\<^verbatim>\<open>else\<close> does.
\<close>

definition runChecks :: "url_parser \<Rightarrow> string \<Rightarrow> (string \<times> int) list \<times> int" where
  "runChecks URL raw =
     (let host = fst (parseHost URL raw);
          lowerHost = toLowerCase host;
          lowerUrl = toLowerCase raw;
          isKnownSafeDomain = regexTestI knownSafe lowerHost;
          score = 0;
          breakdown = [];
          isHttps = startsWith raw ''https://'';
          (breakdown, score) =
            (if isHttps \<or> (isKnownSafeDomain \<and> \<not> startsWith raw ''http://'')
             then (breakdown @ [(''https'', 2)], score + 2)
             else (breakdown @ [(''https'', 0)], score));
          hasValidSsl = mockHasValidSsl raw;
          (breakdown, score) =
            (if hasValidSsl then (breakdown @ [(''ssl'', 2)], score + 2)
             else (breakdown @ [(''ssl'', 0)], score));
          isBlacklisted = mockIsBlacklisted host;
          (breakdown, score) =
            (if \<not> isBlacklisted then (breakdown @ [(''blacklisted'', 2)], score + 2)
             else (breakdown @ [(''blacklisted'', - 2)], score - 2));
          isClean = isShortAndClean host;
          (breakdown, score) =
            (if isClean then (breakdown @ [(''cleanDomain'', 1)], score + 1)
             else (breakdown @ [(''cleanDomain'', 0)], score));
          hasSuspicious = (hasUrgentKeywords lowerHost \<or> hasUrgentKeywords lowerUrl);
          (breakdown, score) =
            (if \<not> hasSuspicious then (breakdown @ [(''suspiciousKeywords'', 1)], score + 1)
             else (breakdown @ [(''suspiciousKeywords'', - 1)], score - 1));
          ageDays = mockDomainAgeDays host;
          isEstablished = (ageDays > 180);
          (breakdown, score) =
            (if isEstablished then (breakdown @ [(''domainAge'', 1)], score + 1)
             else (breakdown @ [(''domainAge'', 0)], score));
          hasRedirects = mockHasExcessiveRedirects URL raw;
          (breakdown, score) =
            (if \<not> hasRedirects then (breakdown @ [(''redirects'', 1)], score + 1)
             else (breakdown @ [(''redirects'', - 1)], score - 1))
      in (breakdown, score))"

text \<open>\<^verbatim>\<open>breakdown.key === v\<close>: a missing key reads \<^verbatim>\<open>undefined\<close>, equal to no number.\<close>

definition keyIs :: "(string \<times> int) list \<Rightarrow> string \<Rightarrow> int \<Rightarrow> bool" where
  "keyIs bd k v = (map_of bd k = Some v)"

text \<open>The check mark U+2714 that opens every confirmation, as its three UTF-8 bytes.\<close>

definition checkMark :: string where
  "checkMark = [char_of (226 :: nat), char_of (156 :: nat), char_of (148 :: nat)]"

text \<open>\<^verbatim>\<open>if (c) reasons.push(r)\<close>\<close>

definition pushIf :: "bool \<Rightarrow> string \<Rightarrow> string list \<Rightarrow> string list" where
  "pushIf c r rs = (if c then rs @ [r] else rs)"

definition buildReasons :: "(string \<times> int) list \<Rightarrow> int \<Rightarrow> string list" where
  "buildReasons bd sf =
     (let reasons = [];
          reasons =
            (if sf \<le> 6 then
               (let reasons = pushIf (keyIs bd ''blacklisted'' (- 2))
                                ''Domain is flagged on threat lists.'' reasons;
                    reasons = pushIf (keyIs bd ''suspiciousKeywords'' (- 1))
                                ''URL contains suspicious, urgent keywords.'' reasons;
                    reasons = pushIf (keyIs bd ''redirects'' (- 1))
                                ''Excessive redirects or shortener detected.'' reasons;
                    reasons = pushIf (keyIs bd ''https'' 0)
                                ''Missing HTTPS for a secure connection.'' reasons;
                    reasons = pushIf (keyIs bd ''ssl'' 0)
                                ''Missing or invalid SSL Certificate.'' reasons;
                    reasons = pushIf (keyIs bd ''domainAge'' 0)
                                ''Domain is less than 6 months old.'' reasons
                in reasons)
             else reasons);
          reasons =
            (if length reasons = 0 \<or> sf > 6 then
               (let reasons = pushIf (keyIs bd ''https'' 2)
                                (checkMark @ '' Uses HTTPS for a secure connection.'') reasons;
                    reasons = pushIf (keyIs bd ''ssl'' 2)
                                (checkMark @ '' Valid SSL Certificate detected.'') reasons;
                    reasons = pushIf (keyIs bd ''blacklisted'' 2)
                                (checkMark @ '' Domain is not flagged on threat lists.'') reasons;
                    reasons = pushIf (keyIs bd ''cleanDomain'' 1)
                                (checkMark @ '' Domain name is short and clean.'') reasons;
                    reasons = pushIf (keyIs bd ''suspiciousKeywords'' 1)
                                (checkMark @ '' No suspicious keywords found.'') reasons;
                    reasons = pushIf (keyIs bd ''domainAge'' 1)
                                (checkMark @ '' Domain is established (over 6 months old).'')
                                reasons;
                    reasons = pushIf (keyIs bd ''redirects'' 1)
                                (checkMark @ '' No excessive redirects detected.'') reasons
                in reasons)
             else reasons);
          reasons =
            (if length reasons = 0
             then reasons @ [''Analysis complete. No specific flags found, but score is 0. Check for valid domain format.'']
             else reasons)
      in reasons)"

text \<open>
  \<^verbatim>\<open>scoreUrl\<close>. The running score is an integer, so \<^verbatim>\<open>Math.round\<close> leaves it as
  it is. The confidence is clamped with the default bounds of \<^verbatim>\<open>clamp\<close>, 0 and
  \<^verbatim>\<open>1e9\<close>. \<open>newId\<close> stands for \<^verbatim>\<open>crypto.randomUUID()\<close> and \<open>now\<close> for
  \<^verbatim>\<open>new Date().toLocaleString()\<close>. The fields the object literal does not mention
  are absent.
\<close>

definition scoreUrl :: "url_parser \<Rightarrow> string \<Rightarrow> string \<Rightarrow> string \<Rightarrow> ScanResult" where
  "scoreUrl URL newId now raw =
     (let (bd, score) = runChecks URL raw;
          score = clamp score 0 10;
          sf = score;
          positiveScore = foldl (\<lambda>a b. a + b) 0 (filter (\<lambda>v. v > 0) (map snd bd));
          conf = clamp (real_of_int positiveScore / 10) 0 1000000000
      in \<lparr> scan_id = newId,
           url = (if startsWith raw ''http'' then raw else ''https://'' @ raw),
           safety = sf,
           tier = scoreTier sf,
           color = scoreColor sf,
           confidence = conf,
           reasons = buildReasons bd sf,
           breakdown = bd,
           timestamp = now,
           likes = Some 0,
           dislikes = Some 0,
           userReaction = None,
           comments = None,
           showCommentInput = None,
           newComment = None,
           newCommentImages = None,
           apiCheck = None,
           showCommentError = None \<rparr>)"

subsection \<open>External check\<close>

text \<open>The JSON body of the remote service: \<^verbatim>\<open>{finalVerdict, summary, checks}\<close>.\<close>

record ExtResponse =
  finalVerdict :: string
  summary :: string
  checks :: "(string \<times> SubCheck) list option"

text \<open>
  What \<^verbatim>\<open>fetch\<close> and \<^verbatim>\<open>res.json()\<close> can do: throw, or answer with
  \<^verbatim>\<open>res.ok\<close> and a body (\<open>None\<close> when the body is \<^verbatim>\<open>null\<close> or does not parse).
\<close>

datatype FetchOutcome = NetworkError | Responded bool "ExtResponse option"

type_synonym network = "string \<Rightarrow> FetchOutcome"

definition realExternalLookup :: "network \<Rightarrow> string \<Rightarrow> ExtResponse option" where
  "realExternalLookup fetch u =
     (case fetch u of
        NetworkError \<Rightarrow> None
      | Responded ok body \<Rightarrow> (if \<not> ok then None else body))"

definition didAllApisFail :: "(string \<times> SubCheck) list option \<Rightarrow> bool" where
  "didAllApisFail cs =
     (case cs of
        None \<Rightarrow> False
      | Some kvs \<Rightarrow> list_all (\<lambda>c. checked c = Some False \<or> status c = ''error'') (map snd kvs))"

text \<open>The tier and colour expressions of \<^verbatim>\<open>runExternalCheck\<close> (lines 459 to 467).\<close>

definition finalTier :: "int \<Rightarrow> Tier" where
  "finalTier s = (if s \<le> 3 then HighRisk else if s \<le> 6 then BeCareful else Safe)"

definition finalColor :: "int \<Rightarrow> string" where
  "finalColor s = (if s \<le> 3 then ''#ef4444'' else if s \<le> 6 then ''#f59e0b'' else ''#10b981'')"

text \<open>The object \<^verbatim>\<open>updatedScan\<close> that \<^verbatim>\<open>runExternalCheck\<close> builds from a response.\<close>

definition updatedScan :: "ScanResult \<Rightarrow> ExtResponse \<Rightarrow> ScanResult" where
  "updatedScan sc ext =
     (let allFailed = didAllApisFail (checks ext);
          finalSafety = safety sc;
          finalSafety = (if finalVerdict ext = ''malicious'' then min finalSafety 1
                         else if finalVerdict ext = ''suspicious'' then min finalSafety 4
                         else finalSafety)
      in sc \<lparr> safety := finalSafety,
              tier := finalTier finalSafety,
              color := finalColor finalSafety,
              apiCheck := Some \<lparr> api_done = True,
                                 api_note = (if allFailed then ''External API scan failed''
                                             else summary ext),
                                 api_checks = Some (case checks ext of None \<Rightarrow> [] | Some kvs \<Rightarrow> kvs),
                                 api_failed = Some allFailed \<rparr> \<rparr>)"

subsection \<open>Ranking\<close>

text \<open>
  \<^verbatim>\<open>new Date(s).getTime()\<close> is a parameter: the milliseconds of a timestamp the
  parser accepts, \<open>None\<close> for \<^verbatim>\<open>NaN\<close>. A comparator returns a number, \<open>None\<close>
  again standing for \<^verbatim>\<open>NaN\<close>.
\<close>

type_synonym date_parser = "string \<Rightarrow> int option"

text \<open>\<^verbatim>\<open>x ?? d\<close>\<close>

definition nullish :: "'a option \<Rightarrow> 'a \<Rightarrow> 'a" where
  "nullish x d = (case x of None \<Rightarrow> d | Some v \<Rightarrow> v)"

text \<open>\<^verbatim>\<open>x || 0\<close> on an optional number\<close>

definition orZero :: "int option \<Rightarrow> int" where
  "orZero x = (case x of None \<Rightarrow> 0 | Some v \<Rightarrow> (if v = 0 then 0 else v))"

text \<open>Subtraction of two numbers either of which may be \<^verbatim>\<open>NaN\<close>.\<close>

definition numSub :: "int option \<Rightarrow> int option \<Rightarrow> int option" where
  "numSub x y = (case x of None \<Rightarrow> None | Some a \<Rightarrow> (case y of None \<Rightarrow> None | Some b \<Rightarrow> Some (a - b)))"

definition tierOrder :: "Tier \<Rightarrow> int" where
  "tierOrder t = (case t of HighRisk \<Rightarrow> 0 | BeCareful \<Rightarrow> 1 | Safe \<Rightarrow> 2)"

text \<open>\<^verbatim>\<open>sortScans\<close> of \<^verbatim>\<open>App.tsx\<close>.\<close>

definition sortScans :: "date_parser \<Rightarrow> ScanResult \<Rightarrow> ScanResult \<Rightarrow> int option" where
  "sortScans getTime a b =
     (if tierOrder (tier a) \<noteq> tierOrder (tier b)
      then Some (tierOrder (tier a) - tierOrder (tier b))
      else
        (let aDislikes = nullish (dislikes a) 0;
             bDislikes = nullish (dislikes b) 0
         in if aDislikes \<noteq> bDislikes then Some (bDislikes - aDislikes)
            else
              (let dateA = getTime (timestamp a);
                   dateB = getTime (timestamp b)
               in numSub dateB dateA)))"

text \<open>
  \<^verbatim>\<open>Array.prototype.sort(cmp)\<close>: a stable sort that reads a \<^verbatim>\<open>NaN\<close> from the
  comparator as 0. For a comparator that is not consistent the language leaves the
  order to the engine; the model fixes insertion from the right.
\<close>

fun insertBy :: "('a \<Rightarrow> 'a \<Rightarrow> int option) \<Rightarrow> 'a \<Rightarrow> 'a list \<Rightarrow> 'a list" where
  "insertBy cmp x [] = [x]"
| "insertBy cmp x (y # ys) =
     (if nullish (cmp x y) 0 \<le> 0 then x # y # ys else y # insertBy cmp x ys)"

definition arraySort :: "('a \<Rightarrow> 'a \<Rightarrow> int option) \<Rightarrow> 'a list \<Rightarrow> 'a list" where
  "arraySort cmp xs = foldr (insertBy cmp) xs []"

subsection \<open>Application state and the external check\<close>

record AppState =
  input :: string
  scan :: "ScanResult option"
  history :: "ScanResult list"
  loading :: bool
  error :: "string option"

text \<open>
  \<^verbatim>\<open>runExternalCheck\<close>. The function reads the \<^verbatim>\<open>scan\<close> of the render that
  created it (the argument \<open>captured\<close>) and writes through the state setters. The
  \<^verbatim>\<open>finally\<close> block clears \<^verbatim>\<open>loading\<close> on every path that entered the
  \<^verbatim>\<open>try\<close>.
\<close>

definition runExternalCheck ::
  "date_parser \<Rightarrow> network \<Rightarrow> ScanResult option \<Rightarrow> AppState \<Rightarrow> AppState" where
  "runExternalCheck getTime fetch captured st =
     (case captured of
        None \<Rightarrow> st
      | Some sc \<Rightarrow>
          (let st = st \<lparr> loading := True, error := None \<rparr> in
           case realExternalLookup fetch (url sc) of
             None \<Rightarrow> st \<lparr> error := Some ''External API scan failed'', loading := False \<rparr>
           | Some ext \<Rightarrow>
               (let upd = updatedScan sc ext in
                st \<lparr> scan := Some upd,
                     history := take 5 (arraySort (sortScans getTime)
                                  (map (\<lambda>s. if scan_id s = scan_id sc then upd else s)
                                     (history st))),
                     loading := False \<rparr>)))"

text \<open>
  The button \<^verbatim>\<open>Run API check\<close>: rendered only when the safety is above 3, and
  disabled while loading or once \<^verbatim>\<open>scan.apiCheck?.done\<close> holds.
\<close>

definition apiButtonEnabled :: "AppState \<Rightarrow> bool" where
  "apiButtonEnabled st =
     (case scan st of
        None \<Rightarrow> False
      | Some sc \<Rightarrow>
          (if safety sc \<le> 3 then False
           else \<not> (loading st \<or> (case apiCheck sc of None \<Rightarrow> False | Some a \<Rightarrow> api_done a))))"

subsection \<open>Analysing an address\<close>

definition endsWith :: "string \<Rightarrow> string \<Rightarrow> bool" where
  "endsWith s p = (length p \<le> length s \<and> drop (length s - length p) s = p)"

definition isLetter :: "char \<Rightarrow> bool" where
  "isLetter c =
     (let n = (of_char c :: nat) in (65 \<le> n \<and> n \<le> 90) \<or> (97 \<le> n \<and> n \<le> 122))"

definition isLabelChar :: "char \<Rightarrow> bool" where
  "isLabelChar c =
     (let n = (of_char c :: nat) in isLetter c \<or> (48 \<le> n \<and> n \<le> 57) \<or> c = CHR ''-'')"

text \<open>The characters that \<^verbatim>\<open>trim\<close> removes, among the ASCII ones.\<close>

definition isSpace :: "char \<Rightarrow> bool" where
  "isSpace c = (let n = (of_char c :: nat) in n = 32 \<or> (9 \<le> n \<and> n \<le> 13))"

text \<open>
  \<^verbatim>\<open>/^([a-zA-Z0-9-]+\.)+[a-zA-Z]{2,}(\/.*)?$/\<close>: up to the first slash, one or
  more non-empty labels of letters, digits and hyphens, each followed by a dot, then
  at least two letters; from the first slash on, anything without a line break.
\<close>

definition matchesHostPattern :: "string \<Rightarrow> bool" where
  "matchesHostPattern v =
     (let hostPart = takeWhile (\<lambda>c. c \<noteq> CHR ''/'') v;
          rest = dropWhile (\<lambda>c. c \<noteq> CHR ''/'') v;
          parts = split (CHR ''.'') hostPart
      in 2 \<le> length parts
         \<and> list_all (\<lambda>p. p \<noteq> [] \<and> list_all isLabelChar p) (butlast parts)
         \<and> 2 \<le> length (last parts) \<and> list_all isLetter (last parts)
         \<and> list_all (\<lambda>c. c \<noteq> char_of (10 :: nat) \<and> c \<noteq> char_of (13 :: nat)) rest)"

definition validateInput :: "string \<Rightarrow> bool" where
  "validateInput v =
     (if v = [] \<or> list_all isSpace v then False
      else matchesHostPattern v \<or> startsWith v ''http://'' \<or> startsWith v ''https://'')"

text \<open>
  \<^verbatim>\<open>isDomainValid\<close>. \<open>probe url\<close> says whether the \<^verbatim>\<open>fetch\<close> of the favicon
  at \<open>url\<close> returns before its timeout; the attempts run in order and the first that
  returns decides.
\<close>

definition wellKnownDomains :: "string list" where
  "wellKnownDomains =
     [''google.com'', ''youtube.com'', ''facebook.com'', ''amazon.com'',
      ''ebay.com'', ''wikipedia.org'', ''twitter.com'', ''instagram.com'',
      ''linkedin.com'', ''microsoft.com'', ''apple.com'', ''netflix.com'',
      ''github.com'', ''stackoverflow.com'', ''khanacademy.org'', ''coursera.org'']"

definition isDomainValid :: "(string \<Rightarrow> bool) \<Rightarrow> string \<Rightarrow> bool" where
  "isDomainValid probe host =
     (let cleanHost = (if startsWith host ''www.'' then drop 4 host else host) in
      if list_ex (\<lambda>domain. cleanHost = domain \<or> endsWith cleanHost (''.'' @ domain))
           wellKnownDomains
      then True
      else
        (let urlsToTry = [''https://'' @ host @ ''/favicon.ico'',
                          ''https://www.'' @ host @ ''/favicon.ico'',
                          ''http://'' @ host @ ''/favicon.ico'',
                          ''http://www.'' @ host @ ''/favicon.ico''];
             uniqueUrls = rev (remdups (rev urlsToTry))
         in list_ex probe uniqueUrls))"

text \<open>
  \<^verbatim>\<open>handleAnalyze\<close>, the submit handler of the form. It belongs to the render that
  is on display when the form is submitted, and so does the \<^verbatim>\<open>runExternalCheck\<close> it
  calls: that function reads the \<^verbatim>\<open>scan\<close> of the same render, the result that was
  on display before the submit, not the result that \<^verbatim>\<open>setScan\<close> has just stored.
  \<^verbatim>\<open>saveScanToFirebase\<close> writes to the store and catches its own errors; it leaves
  the state as it is. The listener on the store, which replaces the history after a
  write, is a handler of its own and not part of this one.
\<close>

definition handleAnalyze ::
  "url_parser \<Rightarrow> (string \<Rightarrow> bool) \<Rightarrow> date_parser \<Rightarrow> network \<Rightarrow> string \<Rightarrow> string
     \<Rightarrow> AppState \<Rightarrow> AppState" where
  "handleAnalyze URL probe getTime fetch newId now st0 =
     (let captured = scan st0;
          st = st0 \<lparr> error := None \<rparr>
      in if \<not> validateInput (input st0)
         then st \<lparr> error :=
                Some ''Please enter a valid address like example.com or https://example.com'' \<rparr>
         else
           (let st = st \<lparr> loading := True, scan := None \<rparr>;
                host = fst (parseHost URL (input st0));
                exists = isDomainValid probe host
            in if \<not> exists
               then st \<lparr> error := Some ''The domain does not exist or cannot be reached.'',
                         loading := False \<rparr>
               else
                 (let scanResult = scoreUrl URL newId now (input st0);
                      st = st \<lparr> scan := Some scanResult \<rparr>;
                      st = st \<lparr> history := take 5 (scanResult # history st) \<rparr>;
                      st = (if safety scanResult > 3 \<and> safety scanResult \<le> 6
                            then runExternalCheck getTime fetch captured st
                            else st)
                  in st \<lparr> loading := False \<rparr>)))"

subsection \<open>Reactions in the main view\<close>

text \<open>
  The click handlers of the like and dislike buttons of a history item \<open>h\<close>. Each
  computes the triple \<^verbatim>\<open>{likes, dislikes, userReaction}\<close>, writes it to
  \<^verbatim>\<open>links/{key}\<close> and copies it into the history item with the id of \<open>h\<close>.
\<close>

type_synonym reaction_state = "int \<times> int \<times> Reaction option"

definition likeClick :: "ScanResult \<Rightarrow> reaction_state" where
  "likeClick h =
     (let newReaction = userReaction h;
          likes = orZero (likes h);
          dislikes = orZero (dislikes h)
      in if newReaction = Some Like then (likes - 1, dislikes, None)
         else
           (let dislikes = (if newReaction = Some Dislike then dislikes - 1 else dislikes)
            in (likes + 1, dislikes, Some Like)))"

definition dislikeClick :: "ScanResult \<Rightarrow> reaction_state" where
  "dislikeClick h =
     (let newReaction = userReaction h;
          likes = orZero (likes h);
          dislikes = orZero (dislikes h)
      in if newReaction = Some Dislike then (likes, dislikes - 1, None)
         else
           (let likes = (if newReaction = Some Like then likes - 1 else likes)
            in (likes, dislikes + 1, Some Dislike)))"

text \<open>\<^verbatim>\<open>{ ...s, likes, dislikes, userReaction: newReaction }\<close>\<close>

definition withReaction :: "ScanResult \<Rightarrow> reaction_state \<Rightarrow> ScanResult" where
  "withReaction s r =
     (case r of (l, d, u) \<Rightarrow> s \<lparr> likes := Some l, dislikes := Some d, userReaction := u \<rparr>)"

definition reactInHistory :: "date_parser \<Rightarrow> ScanResult \<Rightarrow> reaction_state \<Rightarrow> AppState \<Rightarrow> AppState" where
  "reactInHistory getTime h r st =
     st \<lparr> history := arraySort (sortScans getTime)
                        (map (\<lambda>s. if scan_id s = scan_id h then withReaction s r else s)
                           (history st)) \<rparr>"

subsection \<open>The community view\<close>

text \<open>
  \<^verbatim>\<open>Community.tsx\<close> declares its own \<^verbatim>\<open>ScanResult\<close> and \<^verbatim>\<open>Comment\<close>
  interfaces, with the tier a plain string; their fields carry the prefix \<open>c_\<close> here.
\<close>

record CommunityComment =
  c_comment_id :: string
  c_comment_text :: string
  c_comment_timestamp :: string

record CommunityScan =
  c_id :: string
  c_url :: string
  c_safety :: int
  c_tier :: string
  c_color :: string
  c_timestamp :: string
  c_likes :: "int option"
  c_dislikes :: "int option"
  c_userReaction :: "Reaction option"
  c_comments :: "CommunityComment list option"
  c_newComment :: "string option"
  c_showCommentInput :: "bool option"

text \<open>
  \<^verbatim>\<open>tierPriority\<close> is a plain object literal with three keys of its own. Indexing
  it with another string finds what every object inherits from
  \<^verbatim>\<open>Object.prototype\<close>: a function, or the prototype itself, for the names below, and
  \<^verbatim>\<open>undefined\<close> for every other string.
\<close>

definition objectPrototypeKeys :: "string list" where
  "objectPrototypeKeys =
     [''constructor'', ''hasOwnProperty'', ''isPrototypeOf'', ''propertyIsEnumerable'',
      ''toLocaleString'', ''toString'', ''valueOf'', ''__proto__'', ''__defineGetter__'',
      ''__defineSetter__'', ''__lookupGetter__'', ''__lookupSetter__'']"

datatype Property = NumberValue int | InheritedValue

definition tierPriority :: "string \<Rightarrow> Property option" where
  "tierPriority k =
     (case map_of [(''High Risk'', 3), (''Be Careful'', 2), (''Safe'', 1)] k of
        Some n \<Rightarrow> Some (NumberValue n)
      | None \<Rightarrow> (if k \<in> set objectPrototypeKeys then Some InheritedValue else None))"

text \<open>
  \<^verbatim>\<open>(p || 0)\<close> as an operand of a subtraction: the number itself, 0 for
  \<^verbatim>\<open>undefined\<close>, and \<^verbatim>\<open>NaN\<close> for an inherited function or object, which is
  truthy and converts to no number.
\<close>

definition priorityOrZero :: "Property option \<Rightarrow> int option" where
  "priorityOrZero p =
     (case p of
        None \<Rightarrow> Some 0
      | Some (NumberValue n) \<Rightarrow> Some (if n = 0 then 0 else n)
      | Some InheritedValue \<Rightarrow> None)"

text \<open>
  \<^verbatim>\<open>sortScans\<close> of \<^verbatim>\<open>Community.tsx\<close>. A difference that is \<^verbatim>\<open>NaN\<close> is
  not equal to 0, so it is returned.
\<close>

definition sortScansCommunity ::
  "date_parser \<Rightarrow> CommunityScan \<Rightarrow> CommunityScan \<Rightarrow> int option" where
  "sortScansCommunity getTime a b =
     (case numSub (priorityOrZero (tierPriority (c_tier b)))
             (priorityOrZero (tierPriority (c_tier a))) of
        None \<Rightarrow> None
      | Some tierDiff \<Rightarrow>
          (if tierDiff \<noteq> 0 then Some tierDiff
           else
             (let dislikesDiff = nullish (c_dislikes b) 0 - nullish (c_dislikes a) 0
              in if dislikesDiff \<noteq> 0 then Some dislikesDiff
                 else
                   (let likesDiff = nullish (c_likes b) 0 - nullish (c_likes a) 0
                    in if likesDiff \<noteq> 0 then Some likesDiff
                       else numSub (getTime (c_timestamp b)) (getTime (c_timestamp a))))))"

definition handleLike :: "CommunityScan \<Rightarrow> reaction_state" where
  "handleLike sc =
     (let newReaction = (if c_userReaction sc = Some Like then None else Some Like);
          updatedLikes = (if newReaction = Some Like then nullish (c_likes sc) 0 + 1
                          else nullish (c_likes sc) 1 - 1);
          updatedDislikes = (if newReaction = Some Like \<and> c_userReaction sc = Some Dislike
                             then nullish (c_dislikes sc) 1 - 1
                             else nullish (c_dislikes sc) 0)
      in (updatedLikes, updatedDislikes, newReaction))"

definition handleDislike :: "CommunityScan \<Rightarrow> reaction_state" where
  "handleDislike sc =
     (let newReaction = (if c_userReaction sc = Some Dislike then None else Some Dislike);
          updatedDislikes = (if newReaction = Some Dislike then nullish (c_dislikes sc) 0 + 1
                             else nullish (c_dislikes sc) 1 - 1);
          updatedLikes = (if newReaction = Some Dislike \<and> c_userReaction sc = Some Like
                          then nullish (c_likes sc) 1 - 1
                          else nullish (c_likes sc) 0)
      in (updatedLikes, updatedDislikes, newReaction))"

text \<open>\<^verbatim>\<open>{ ...h, likes: updatedLikes, dislikes: updatedDislikes, userReaction: newReaction }\<close>\<close>

definition c_withReaction :: "CommunityScan \<Rightarrow> reaction_state \<Rightarrow> CommunityScan" where
  "c_withReaction h r =
     (case r of (l, d, u) \<Rightarrow> h \<lparr> c_likes := Some l, c_dislikes := Some d, c_userReaction := u \<rparr>)"

text \<open>
  A handler of the community view does not write the triple at once: it awaits three
  writes to \<^verbatim>\<open>history/{id}\<close>, one field each, and the listener on
  \<^verbatim>\<open>history\<close> shows the stored record to the view after every one of them. These
  are the records after the first, the second and the third write, in source order
  (likes, dislikes, reaction for a like; dislikes, likes, reaction for a dislike).
\<close>

definition handleLikeWrites :: "CommunityScan \<Rightarrow> CommunityScan list" where
  "handleLikeWrites sc =
     (case handleLike sc of
        (l, d, u) \<Rightarrow>
          [sc \<lparr> c_likes := Some l \<rparr>,
           sc \<lparr> c_likes := Some l, c_dislikes := Some d \<rparr>,
           sc \<lparr> c_likes := Some l, c_dislikes := Some d, c_userReaction := u \<rparr>])"

definition handleDislikeWrites :: "CommunityScan \<Rightarrow> CommunityScan list" where
  "handleDislikeWrites sc =
     (case handleDislike sc of
        (l, d, u) \<Rightarrow>
          [sc \<lparr> c_dislikes := Some d \<rparr>,
           sc \<lparr> c_dislikes := Some d, c_likes := Some l \<rparr>,
           sc \<lparr> c_dislikes := Some d, c_likes := Some l, c_userReaction := u \<rparr>])"

text \<open>
  \<^verbatim>\<open>saveScanToFirebase\<close> stores \<^verbatim>\<open>{ ...scanResult, id: newRef.key }\<close> under
  \<^verbatim>\<open>history\<close>; the store drops the \<^verbatim>\<open>null\<close> fields. The community view reads
  that record through its own interface.
\<close>

definition tierName :: "Tier \<Rightarrow> string" where
  "tierName t = (case t of HighRisk \<Rightarrow> ''High Risk'' | BeCareful \<Rightarrow> ''Be Careful'' | Safe \<Rightarrow> ''Safe'')"

definition historyRecord :: "string \<Rightarrow> ScanResult \<Rightarrow> CommunityScan" where
  "historyRecord key r =
     \<lparr> c_id = key, c_url = url r, c_safety = safety r, c_tier = tierName (tier r),
       c_color = color r, c_timestamp = timestamp r, c_likes = likes r,
       c_dislikes = dislikes r, c_userReaction = userReaction r, c_comments = None,
       c_newComment = None, c_showCommentInput = None \<rparr>"

subsection \<open>States the reaction handlers can reach\<close>

text \<open>
  The states between complete runs of the handlers: each run is one step here, from the
  record before its first write to the record after its last. A community item starts as the stored record of a fresh
  scan, or as a record under \<^verbatim>\<open>history\<close> that carries no counters and no reaction
  (\<^verbatim>\<open>addComment\<close> creates one under the key of the address), and changes by the two
  handlers; the handler of the rendered item \<open>sc\<close> writes into the item \<open>h\<close> of the
  same id.
\<close>

inductive reachableCommunity :: "CommunityScan \<Rightarrow> bool" where
  c_saved: "reachableCommunity (historyRecord key (scoreUrl URL newId now raw))"
| c_bare: "reachableCommunity (c \<lparr> c_likes := None, c_dislikes := None, c_userReaction := None \<rparr>)"
| c_liked: "reachableCommunity h \<Longrightarrow> reachableCommunity sc \<Longrightarrow>
     reachableCommunity (c_withReaction h (handleLike sc))"
| c_disliked: "reachableCommunity h \<Longrightarrow> reachableCommunity sc \<Longrightarrow>
     reachableCommunity (c_withReaction h (handleDislike sc))"

text \<open>
  A history item of the main view starts as the result of \<^verbatim>\<open>scoreUrl\<close>. It is
  stored under a new id, reconciled, changed by the two click handlers (one write of
  the whole triple each), and on a load it takes the triple of \<^verbatim>\<open>links/{key}\<close>
  (the triple some item wrote there) or, when that entry is missing, the counters of
  the stored record with no reaction. The listener looks for a local reaction in the
  \<^verbatim>\<open>history\<close> of the render that registered it, the first one, where the list is
  empty; so a load takes the reaction from the store alone.
\<close>

inductive reachableApp :: "ScanResult \<Rightarrow> bool" where
  scored: "reachableApp (scoreUrl URL newId now raw)"
| stored: "reachableApp s \<Longrightarrow> reachableApp (s \<lparr> scan_id := key \<rparr>)"
| reconciled: "reachableApp s \<Longrightarrow> reachableApp (updatedScan s ext)"
| liked: "reachableApp s \<Longrightarrow> reachableApp h \<Longrightarrow> reachableApp (withReaction s (likeClick h))"
| disliked: "reachableApp s \<Longrightarrow> reachableApp h \<Longrightarrow>
     reachableApp (withReaction s (dislikeClick h))"
| loaded: "reachableApp s \<Longrightarrow> reachableApp g \<Longrightarrow>
     reachableApp (withReaction s (nullish (likes g) 0, nullish (dislikes g) 0, userReaction g))"
| synced: "reachableApp s \<Longrightarrow> reachableCommunity c \<Longrightarrow>
     reachableApp (withReaction s (nullish (c_likes c) 0, nullish (c_dislikes c) 0, None))"

subsection \<open>Sample inputs\<close>

text \<open>A parser that answers with the host of the sample address, and a scan of it.\<close>

definition sampleParser :: url_parser where
  "sampleParser s = Some \<lparr> hostname = ''example-site.com'', pathname = ''/'', search = [] \<rparr>"

definition midScan :: ScanResult where
  "midScan = scoreUrl sampleParser ''scan-1'' ''11/2/2026, 9:00:00 AM'' ''http://example-site.com''"

definition sampleClock :: date_parser where
  "sampleClock = map_of [(''11/2/2026, 9:00:00 AM'', 1793610000000),
                         (''11/2/2026, 9:00:01 AM'', 1793610001000)]"

definition verdictResponse :: "string \<Rightarrow> ExtResponse" where
  "verdictResponse v =
     \<lparr> finalVerdict = v, summary = ''1 of 3 engines flagged this link'',
       checks = Some [(''virustotal'', \<lparr> checked = Some True, status = v,
                                         details = ''engine report'' \<rparr>)] \<rparr>"

definition sampleState :: "ScanResult \<Rightarrow> AppState" where
  "sampleState sc =
     \<lparr> input = ''http://example-site.com'', scan = Some sc, history = [sc],
       loading = False, error = None \<rparr>"


definition doneScan :: ScanResult where
  "doneScan = updatedScan midScan (verdictResponse ''clean'')"

text \<open>
  The state with that scan on display and the next address typed into the form, and a
  service that now answers \<^verbatim>\<open>malicious\<close>.
\<close>

definition analyzeState :: AppState where
  "analyzeState = (sampleState doneScan) \<lparr> input := ''http://example-site.com/page'' \<rparr>"

definition maliciousService :: network where
  "maliciousService u = Responded True (Some (verdictResponse ''malicious''))"

text \<open>The sample scan after one click on its like button, and its stored record.\<close>

definition likedScan :: ScanResult where
  "likedScan = withReaction midScan (likeClick midScan)"

definition savedScan :: CommunityScan where
  "savedScan = historyRecord ''-Oabc123'' midScan"

definition likedSaved :: CommunityScan where
  "likedSaved = c_withReaction savedScan (handleLike savedScan)"

text \<open>
  Two more scans of the sample address: one a second later, one in the same second
  under another id.
\<close>

definition laterScan :: ScanResult where
  "laterScan = midScan \<lparr> scan_id := ''scan-2'', timestamp := ''11/2/2026, 9:00:01 AM'' \<rparr>"

definition twinScan :: ScanResult where
  "twinScan = midScan \<lparr> scan_id := ''scan-3'' \<rparr>"

definition badsiteParser :: url_parser where
  "badsiteParser s =
     Some \<lparr> hostname = ''badsite-login.com'', pathname = ''/verify-account'', search = [] \<rparr>"

subsection \<open>The invariant of the reaction counters\<close>

text \<open>
  A counter that is present is not negative, and a reaction that is set has been
  counted: with a like the likes, when present, are at least one, and with a dislike
  the dislikes.
\<close>

definition countersOk :: "int option \<Rightarrow> int option \<Rightarrow> Reaction option \<Rightarrow> bool" where
  "countersOk l d u =
     ((case l of None \<Rightarrow> True | Some l' \<Rightarrow> 0 \<le> l' \<and> (u = Some Like \<longrightarrow> 1 \<le> l'))
      \<and> (case d of None \<Rightarrow> True | Some d' \<Rightarrow> 0 \<le> d' \<and> (u = Some Dislike \<longrightarrow> 1 \<le> d')))"

section \<open>Properties\<close>

subsection \<open>The shape of a scoring run\<close>

lemma if_pair: "(if c then (a, b) else (a', b')) = ((if c then a else a'), (if c then b else b'))"
  by simp
lemma if_snoc: "(if c then xs @ [(k, v)] else xs @ [(k, w)]) = xs @ [(k, if c then v else w)]"
  by simp
lemma if_plus0: "(if c then s + v else s) = s + (if c then v else (0::int))"
  by simp
lemma if_plus_minus: "(if c then s + v else s - w) = s + (if c then v else - (w::int))"
  by simp

lemma runChecks_shape:
  "\<exists>c1 c2 c3 c4 c5 c6 c7. runChecks URL raw =
     ([(''https'', if c1 then 2 else 0), (''ssl'', if c2 then 2 else 0),
       (''blacklisted'', if c3 then 2 else - 2), (''cleanDomain'', if c4 then 1 else 0),
       (''suspiciousKeywords'', if c5 then 1 else - 1), (''domainAge'', if c6 then 1 else 0),
       (''redirects'', if c7 then 1 else - 1)],
      (if c1 then 2 else 0) + (if c2 then 2 else 0) + (if c3 then 2 else - 2)
      + (if c4 then 1 else 0) + (if c5 then 1 else - 1) + (if c6 then 1 else 0)
      + (if c7 then 1 else - 1))"
  unfolding runChecks_def
  apply (simp only: Let_def if_pair prod.case if_snoc if_plus0 if_plus_minus append_Nil append_Cons add_0)
  apply (intro exI)
  apply (rule refl)
  done

lemma scoreUrl_fields:
  "breakdown (scoreUrl URL newId now raw) = fst (runChecks URL raw)"
  "safety (scoreUrl URL newId now raw) = clamp (snd (runChecks URL raw)) 0 10"
  "tier (scoreUrl URL newId now raw) = scoreTier (clamp (snd (runChecks URL raw)) 0 10)"
  "color (scoreUrl URL newId now raw) = scoreColor (clamp (snd (runChecks URL raw)) 0 10)"
  "confidence (scoreUrl URL newId now raw) =
     clamp (real_of_int (foldl (\<lambda>a b. a + b) 0
              (filter (\<lambda>v. v > 0) (map snd (fst (runChecks URL raw))))) / 10) 0 1000000000"
  "reasons (scoreUrl URL newId now raw) =
     buildReasons (fst (runChecks URL raw)) (clamp (snd (runChecks URL raw)) 0 10)"
  "apiCheck (scoreUrl URL newId now raw) = None"
  "likes (scoreUrl URL newId now raw) = Some 0"
  "dislikes (scoreUrl URL newId now raw) = Some 0"
  "userReaction (scoreUrl URL newId now raw) = None"
  by (simp_all add: scoreUrl_def Let_def split_def)

lemma positive_sum_bounds:
  "0 \<le> foldl (\<lambda>a b. a + b) 0 (filter (\<lambda>v. v > 0) (map snd (fst (runChecks URL raw))))
   \<and> foldl (\<lambda>a b. a + b) 0 (filter (\<lambda>v. v > 0) (map snd (fst (runChecks URL raw)))) \<le> (10::int)"
proof -
  obtain c1 c2 c3 c4 c5 c6 c7 where
    "fst (runChecks URL raw) =
     [(''https'', if c1 then 2 else 0), (''ssl'', if c2 then 2 else 0),
       (''blacklisted'', if c3 then 2 else - 2), (''cleanDomain'', if c4 then 1 else 0),
       (''suspiciousKeywords'', if c5 then 1 else - 1), (''domainAge'', if c6 then 1 else 0),
       (''redirects'', if c7 then 1 else - 1)]"
    using runChecks_shape [of URL raw] by (metis fst_conv)
  then show ?thesis by simp
qed

subsection \<open>Ranges of the score and the confidence\<close>

text \<open>
  C1. For every raw input (and whatever the URL parser answers), the result of
  \<^verbatim>\<open>scoreUrl\<close> has an integer safety between 0 and 10 and a confidence between 0
  and 1.
\<close>

theorem scoreUrl_safety_confidence_range:
  "0 \<le> safety (scoreUrl URL newId now raw) \<and> safety (scoreUrl URL newId now raw) \<le> 10
   \<and> 0 \<le> confidence (scoreUrl URL newId now raw)
   \<and> confidence (scoreUrl URL newId now raw) \<le> 1"
proof -
  have s: "0 \<le> clamp (snd (runChecks URL raw)) 0 10 \<and> clamp (snd (runChecks URL raw)) 0 10 \<le> 10"
    by (simp add: clamp_def)
  have c: "0 \<le> clamp (real_of_int (foldl (\<lambda>a b. a + b) 0
              (filter (\<lambda>v. v > 0) (map snd (fst (runChecks URL raw))))) / 10) 0 1000000000
        \<and> clamp (real_of_int (foldl (\<lambda>a b. a + b) 0
              (filter (\<lambda>v. v > 0) (map snd (fst (runChecks URL raw))))) / 10) 0 1000000000 \<le> 1"
    using positive_sum_bounds [of URL raw] by (simp add: clamp_def)
  show ?thesis using s c by (simp only: scoreUrl_fields)
qed

subsection \<open>The breakdown\<close>

text \<open>
  C10. The breakdown of every result of \<^verbatim>\<open>scoreUrl\<close> has exactly the seven keys
  https, ssl, blacklisted, cleanDomain, suspiciousKeywords, domainAge and redirects,
  each with one of its two values, and its strictly positive entries add up to at most
  10.
\<close>

theorem scoreUrl_breakdown_keys_values:
  "map fst (breakdown (scoreUrl URL newId now raw)) =
     [''https'', ''ssl'', ''blacklisted'', ''cleanDomain'', ''suspiciousKeywords'',
      ''domainAge'', ''redirects'']
   \<and> map_of (breakdown (scoreUrl URL newId now raw)) ''https'' \<in> {Some 0, Some 2}
   \<and> map_of (breakdown (scoreUrl URL newId now raw)) ''ssl'' \<in> {Some 0, Some 2}
   \<and> map_of (breakdown (scoreUrl URL newId now raw)) ''blacklisted'' \<in> {Some (- 2), Some 2}
   \<and> map_of (breakdown (scoreUrl URL newId now raw)) ''cleanDomain'' \<in> {Some 0, Some 1}
   \<and> map_of (breakdown (scoreUrl URL newId now raw)) ''suspiciousKeywords''
        \<in> {Some (- 1), Some 1}
   \<and> map_of (breakdown (scoreUrl URL newId now raw)) ''domainAge'' \<in> {Some 0, Some 1}
   \<and> map_of (breakdown (scoreUrl URL newId now raw)) ''redirects'' \<in> {Some (- 1), Some 1}
   \<and> foldl (\<lambda>a b. a + b) 0
        (filter (\<lambda>v. v > 0) (map snd (breakdown (scoreUrl URL newId now raw)))) \<le> 10"
proof -
  obtain c1 c2 c3 c4 c5 c6 c7 where
    "fst (runChecks URL raw) =
     [(''https'', if c1 then 2 else 0), (''ssl'', if c2 then 2 else 0),
       (''blacklisted'', if c3 then 2 else - 2), (''cleanDomain'', if c4 then 1 else 0),
       (''suspiciousKeywords'', if c5 then 1 else - 1), (''domainAge'', if c6 then 1 else 0),
       (''redirects'', if c7 then 1 else - 1)]"
    using runChecks_shape [of URL raw] by (metis fst_conv)
  then show ?thesis
    unfolding scoreUrl_fields by simp
qed

subsection \<open>A flagged address\<close>

lemma badsite_facts:
  "startsWith ''http://badsite-login.com/verify-account'' ''http''"
  "\<not> startsWith ''http://badsite-login.com/verify-account'' ''https://''"
  "startsWith ''http://badsite-login.com/verify-account'' ''http://''"
  "\<not> mockHasValidSsl ''http://badsite-login.com/verify-account''"
  "mockIsBlacklisted ''badsite-login.com''"
  "\<not> isShortAndClean ''badsite-login.com''"
  "hasUrgentKeywords (toLowerCase ''http://badsite-login.com/verify-account'')"
  "mockDomainAgeDays ''badsite-login.com'' = 340"
  "\<not> regexTestI [''redirect'', ''redir'', ''continue'', ''next='', ''returnurl'']
        ''http://badsite-login.com/verify-account''"
  "\<not> isProbablyShortener ''badsite-login.com''"
  by code_simp+

text \<open>
  C8. For the input \<^verbatim>\<open>http://badsite-login.com/verify-account\<close>, whose host the URL
  parser reads as \<^verbatim>\<open>badsite-login.com\<close>, the running total is -1, the safety is
  clamped to 0, the tier is High Risk, and the reasons are the cautions for the
  blacklist, the keywords, the missing HTTPS and the SSL certificate.
\<close>

theorem scoreUrl_badsite_example:
  assumes "map_option hostname (URL ''http://badsite-login.com/verify-account'')
             = Some ''badsite-login.com''"
  shows "snd (runChecks URL ''http://badsite-login.com/verify-account'') = - 1
     \<and> safety (scoreUrl URL newId now ''http://badsite-login.com/verify-account'') = 0
     \<and> tier (scoreUrl URL newId now ''http://badsite-login.com/verify-account'') = HighRisk
     \<and> reasons (scoreUrl URL newId now ''http://badsite-login.com/verify-account'') =
          [''Domain is flagged on threat lists.'',
           ''URL contains suspicious, urgent keywords.'',
           ''Missing HTTPS for a secure connection.'',
           ''Missing or invalid SSL Certificate.'']"
proof -
  let ?raw = "''http://badsite-login.com/verify-account''"
  have host: "fst (parseHost URL ?raw) = ''badsite-login.com''"
    using assms badsite_facts(1) by (auto simp add: parseHost_def Let_def)
  have run: "runChecks URL ?raw =
      ([(''https'', 0), (''ssl'', 0), (''blacklisted'', - 2), (''cleanDomain'', 0),
        (''suspiciousKeywords'', - 1), (''domainAge'', 1), (''redirects'', 1)], - 1)"
    unfolding runChecks_def mockHasExcessiveRedirects_def host Let_def
    by (simp add: badsite_facts)
  show ?thesis
    unfolding scoreUrl_fields run
    by (simp add: clamp_def scoreTier_def buildReasons_def pushIf_def keyIs_def Let_def)
qed

theorem scoreUrl_badsite_example_witness:
  "map_option hostname (badsiteParser ''http://badsite-login.com/verify-account'')
     = Some ''badsite-login.com''
   \<and> snd (runChecks badsiteParser ''http://badsite-login.com/verify-account'') = - 1
   \<and> safety (scoreUrl badsiteParser ''scan-0'' ''11/2/2026, 9:00:00 AM''
        ''http://badsite-login.com/verify-account'') = 0
   \<and> tier (scoreUrl badsiteParser ''scan-0'' ''11/2/2026, 9:00:00 AM''
        ''http://badsite-login.com/verify-account'') = HighRisk"
proof -
  have h: "map_option hostname (badsiteParser ''http://badsite-login.com/verify-account'')
             = Some ''badsite-login.com''"
    by (simp add: badsiteParser_def)
  show ?thesis
    using h scoreUrl_badsite_example [where URL = badsiteParser and newId = "''scan-0''"
        and now = "''11/2/2026, 9:00:00 AM''"]
    by simp
qed


subsection \<open>Sample scans\<close>

lemma example_site_facts:
  "startsWith ''http://example-site.com'' ''http''"
  "\<not> startsWith ''http://example-site.com'' ''https://''"
  "startsWith ''http://example-site.com'' ''http://''"
  "\<not> mockHasValidSsl ''http://example-site.com''"
  "\<not> mockIsBlacklisted ''example-site.com''"
  "\<not> isShortAndClean ''example-site.com''"
  "\<not> hasUrgentKeywords (toLowerCase ''http://example-site.com'')"
  "\<not> hasUrgentKeywords (toLowerCase ''example-site.com'')"
  "mockDomainAgeDays ''example-site.com'' = 320"
  "\<not> regexTestI [''redirect'', ''redir'', ''continue'', ''next='', ''returnurl'']
        ''http://example-site.com''"
  "\<not> isProbablyShortener ''example-site.com''"
  by code_simp+

lemma midScan_run:
  "runChecks sampleParser ''http://example-site.com'' =
     ([(''https'', 0), (''ssl'', 0), (''blacklisted'', 2), (''cleanDomain'', 0),
       (''suspiciousKeywords'', 1), (''domainAge'', 1), (''redirects'', 1)], 5)"
proof -
  have host: "fst (parseHost sampleParser ''http://example-site.com'') = ''example-site.com''"
    by (simp add: parseHost_def sampleParser_def Let_def)
  show ?thesis
    unfolding runChecks_def mockHasExcessiveRedirects_def host Let_def
    by (simp add: example_site_facts)
qed

lemma midScan_fields:
  "safety midScan = 5" "tier midScan = BeCareful" "apiCheck midScan = None"
  "url midScan = ''http://example-site.com''" "scan_id midScan = ''scan-1''"
  "likes midScan = Some 0" "dislikes midScan = Some 0" "userReaction midScan = None"
  "timestamp midScan = ''11/2/2026, 9:00:00 AM''"
  unfolding midScan_def scoreUrl_def midScan_run
  by (simp_all add: clamp_def scoreTier_def startsWith_def)

subsection \<open>The external check\<close>

lemma updatedScan_fields:
  "safety (updatedScan sc ext) =
     (if finalVerdict ext = ''malicious'' then min (safety sc) 1
      else if finalVerdict ext = ''suspicious'' then min (safety sc) 4 else safety sc)"
  "tier (updatedScan sc ext) = finalTier (safety (updatedScan sc ext))"
  "color (updatedScan sc ext) = finalColor (safety (updatedScan sc ext))"
  "apiCheck (updatedScan sc ext) =
     Some \<lparr> api_done = True,
            api_note = (if didAllApisFail (checks ext) then ''External API scan failed''
                        else summary ext),
            api_checks = Some (case checks ext of None \<Rightarrow> [] | Some kvs \<Rightarrow> kvs),
            api_failed = Some (didAllApisFail (checks ext)) \<rparr>"
  "likes (updatedScan sc ext) = likes sc"
  "dislikes (updatedScan sc ext) = dislikes sc"
  "userReaction (updatedScan sc ext) = userReaction sc"
  "scan_id (updatedScan sc ext) = scan_id sc"
  "url (updatedScan sc ext) = url sc"
  by (simp_all add: updatedScan_def Let_def)

lemma runExternalCheck_lookup_failed:
  "realExternalLookup fetch (url sc) = None \<Longrightarrow>
   runExternalCheck getTime fetch (Some sc) st =
     st \<lparr> loading := False, error := Some ''External API scan failed'' \<rparr>"
  by (simp add: runExternalCheck_def Let_def)

lemma runExternalCheck_scan_answered:
  "realExternalLookup fetch (url sc) = Some ext \<Longrightarrow>
   scan (runExternalCheck getTime fetch (Some sc) st) = Some (updatedScan sc ext)"
  by (simp add: runExternalCheck_def Let_def)

lemma doneScan_fields:
  "safety doneScan = 5" "tier doneScan = BeCareful"
  "map_option api_done (apiCheck doneScan) = Some True"
  "url doneScan = ''http://example-site.com''"
  by (simp_all add: doneScan_def updatedScan_fields midScan_fields verdictResponse_def
        finalTier_def)

text \<open>
  C2. The external check never raises the safety: a verdict \<^verbatim>\<open>malicious\<close> gives
  the minimum of the prior safety and 1, \<^verbatim>\<open>suspicious\<close> the minimum of the prior
  safety and 4, every other verdict the prior safety; and the scan that
  \<^verbatim>\<open>runExternalCheck\<close> leaves in the state is either the prior scan (the lookup
  failed) or the updated scan, its safety at most the prior one.
\<close>

theorem runExternalCheck_never_raises_safety:
  "safety (updatedScan sc ext) =
     (if finalVerdict ext = ''malicious'' then min (safety sc) 1
      else if finalVerdict ext = ''suspicious'' then min (safety sc) 4 else safety sc)
   \<and> safety (updatedScan sc ext) \<le> safety sc
   \<and> (\<exists>sc'. scan (runExternalCheck getTime fetch (Some sc) (st \<lparr> scan := Some sc \<rparr>)) = Some sc'
         \<and> safety sc' \<le> safety sc
         \<and> (sc' = sc \<and> realExternalLookup fetch (url sc) = None
             \<or> (\<exists>e. realExternalLookup fetch (url sc) = Some e \<and> sc' = updatedScan sc e)))"
proof -
  have le: "safety (updatedScan sc e) \<le> safety sc" for e
    by (simp add: updatedScan_fields)
  have st: "\<exists>sc'. scan (runExternalCheck getTime fetch (Some sc) (st \<lparr> scan := Some sc \<rparr>)) = Some sc'
         \<and> safety sc' \<le> safety sc
         \<and> (sc' = sc \<and> realExternalLookup fetch (url sc) = None
             \<or> (\<exists>e. realExternalLookup fetch (url sc) = Some e \<and> sc' = updatedScan sc e))"
  proof (cases "realExternalLookup fetch (url sc)")
    case None
    then show ?thesis by (simp add: runExternalCheck_lookup_failed)
  next
    case (Some e)
    then show ?thesis using le [of e] by (simp add: runExternalCheck_scan_answered)
  qed
  show ?thesis using le [of ext] st by (simp add: updatedScan_fields)
qed

text \<open>
  C5. The tier is a step function of the safety alone, the same in the scoring and in
  the external check: at most 3 is High Risk, above 3 and at most 6 is Be Careful,
  above 6 is Safe; so are the tiers of the results of \<^verbatim>\<open>scoreUrl\<close> and of the
  external check, and the colours follow the same steps.
\<close>

theorem tier_step_function:
  "scoreTier s = (if s \<le> 3 then HighRisk else if s \<le> 6 then BeCareful else Safe)
   \<and> finalTier s = scoreTier s
   \<and> finalColor s = scoreColor s
   \<and> tier (scoreUrl URL newId now raw) = scoreTier (safety (scoreUrl URL newId now raw))
   \<and> color (scoreUrl URL newId now raw) = scoreColor (safety (scoreUrl URL newId now raw))
   \<and> tier (updatedScan sc ext) = scoreTier (safety (updatedScan sc ext))
   \<and> color (updatedScan sc ext) = scoreColor (safety (updatedScan sc ext))
   \<and> scoreTier 0 = HighRisk \<and> scoreTier 3 = HighRisk
   \<and> scoreTier 4 = BeCareful \<and> scoreTier 6 = BeCareful
   \<and> scoreTier 7 = Safe \<and> scoreTier 10 = Safe"
  by (simp add: scoreTier_def finalTier_def finalColor_def scoreColor_def
        updatedScan_def scoreUrl_def Let_def split_def)

text \<open>
  C6, amended. For a scan with safety from 4 to 6, the verdict \<^verbatim>\<open>malicious\<close>
  gives safety 1 (the minimum of the prior safety and 1) and the tier High Risk; the
  verdict \<^verbatim>\<open>suspicious\<close> gives safety 4 (the minimum of the prior safety and 4) and
  the tier Be Careful; every other verdict leaves the safety as it was.
\<close>

theorem mid_tier_reconciliation:
  assumes "4 \<le> safety sc" and "safety sc \<le> 6"
  shows "(if finalVerdict ext = ''malicious''
          then safety (updatedScan sc ext) = 1 \<and> safety (updatedScan sc ext) = min (safety sc) 1
               \<and> tier (updatedScan sc ext) = HighRisk
          else if finalVerdict ext = ''suspicious''
          then safety (updatedScan sc ext) = 4 \<and> safety (updatedScan sc ext) = min (safety sc) 4
               \<and> tier (updatedScan sc ext) = BeCareful
          else safety (updatedScan sc ext) = safety sc \<and> tier (updatedScan sc ext) = BeCareful)"
  using assms by (simp add: updatedScan_def Let_def finalTier_def)

theorem mid_tier_reconciliation_witness:
  "4 \<le> safety midScan \<and> safety midScan \<le> 6
   \<and> safety (updatedScan midScan (verdictResponse ''malicious'')) = 1
   \<and> tier (updatedScan midScan (verdictResponse ''malicious'')) = HighRisk"
  using mid_tier_reconciliation [of midScan "verdictResponse ''malicious''"]
  by (simp add: midScan_fields verdictResponse_def)

text \<open>
  C6 as stated fails: the verdict \<^verbatim>\<open>suspicious\<close> is not \<^verbatim>\<open>malicious\<close>, and it
  lowers the sample scan from 5 to 4.
\<close>

theorem suspicious_verdict_lowers_mid_tier:
  "4 \<le> safety midScan \<and> safety midScan \<le> 6
   \<and> finalVerdict (verdictResponse ''suspicious'') \<noteq> ''malicious''
   \<and> safety midScan = 5
   \<and> safety (updatedScan midScan (verdictResponse ''suspicious'')) = 4
   \<and> safety (updatedScan midScan (verdictResponse ''suspicious'')) \<noteq> safety midScan"
  by (simp add: updatedScan_def Let_def midScan_fields verdictResponse_def)





lemma page_facts:
  "startsWith ''http://example-site.com/page'' ''http''"
  "\<not> startsWith ''http://example-site.com/page'' ''https://''"
  "startsWith ''http://example-site.com/page'' ''http://''"
  "\<not> mockHasValidSsl ''http://example-site.com/page''"
  "\<not> hasUrgentKeywords (toLowerCase ''http://example-site.com/page'')"
  "\<not> regexTestI [''redirect'', ''redir'', ''continue'', ''next='', ''returnurl'']
        ''http://example-site.com/page''"
  "validateInput ''http://example-site.com/page''"
  "isDomainValid (\<lambda>u. True) ''example-site.com''"
  by code_simp+

lemma page_run:
  "runChecks sampleParser ''http://example-site.com/page'' =
     ([(''https'', 0), (''ssl'', 0), (''blacklisted'', 2), (''cleanDomain'', 0),
       (''suspiciousKeywords'', 1), (''domainAge'', 1), (''redirects'', 1)], 5)"
proof -
  have host: "fst (parseHost sampleParser ''http://example-site.com/page'') = ''example-site.com''"
    by (simp add: parseHost_def sampleParser_def Let_def)
  show ?thesis
    unfolding runChecks_def mockHasExcessiveRedirects_def host Let_def
    by (simp add: example_site_facts page_facts)
qed

lemma page_host:
  "fst (parseHost sampleParser ''http://example-site.com/page'') = ''example-site.com''"
  by (simp add: parseHost_def sampleParser_def Let_def)

lemma page_safety:
  "safety (scoreUrl sampleParser newId now ''http://example-site.com/page'') = 5"
  unfolding scoreUrl_fields page_run by (simp add: clamp_def)

lemma handleAnalyze_mid_tier:
  assumes "validateInput (input st)"
    and "isDomainValid probe (fst (parseHost URL (input st)))"
    and "3 < safety (scoreUrl URL newId now (input st))"
    and "safety (scoreUrl URL newId now (input st)) \<le> 6"
    and "scan st = Some prev"
    and "realExternalLookup fetch (url prev) = Some ext"
  shows "scan (handleAnalyze URL probe getTime fetch newId now st) = Some (updatedScan prev ext)"
  using assms by (simp add: handleAnalyze_def Let_def runExternalCheck_def)

text \<open>
  C4. A scan whose external check is done is not to be reconciled again. The button
  keeps to that: it is disabled for such a scan. The automatic check of
  \<^verbatim>\<open>handleAnalyze\<close> does not. With the done sample scan on display (safety 5, Be
  Careful), analysing an address that scores 5 runs the check on the done scan, not
  on the new result; with the service now answering \<^verbatim>\<open>malicious\<close> the done scan
  comes back on display with safety 1, tier High Risk and another \<^verbatim>\<open>apiCheck\<close>.
\<close>

theorem auto_check_reconciles_done_scan:
  "scan analyzeState = Some doneScan
   \<and> map_option api_done (apiCheck doneScan) = Some True
   \<and> \<not> apiButtonEnabled analyzeState
   \<and> safety doneScan = 5 \<and> tier doneScan = BeCareful
   \<and> safety (scoreUrl sampleParser ''scan-4'' ''11/2/2026, 9:00:01 AM'' (input analyzeState)) = 5
   \<and> scan (handleAnalyze sampleParser (\<lambda>u. True) sampleClock maliciousService
        ''scan-4'' ''11/2/2026, 9:00:01 AM'' analyzeState)
      = Some (updatedScan doneScan (verdictResponse ''malicious''))
   \<and> scan_id (updatedScan doneScan (verdictResponse ''malicious'')) = scan_id doneScan
   \<and> safety (updatedScan doneScan (verdictResponse ''malicious'')) = 1
   \<and> tier (updatedScan doneScan (verdictResponse ''malicious'')) = HighRisk
   \<and> color (updatedScan doneScan (verdictResponse ''malicious'')) \<noteq> color doneScan
   \<and> apiCheck (updatedScan doneScan (verdictResponse ''malicious'')) \<noteq> apiCheck doneScan"
proof -
  have i: "input analyzeState = ''http://example-site.com/page''"
    and s: "scan analyzeState = Some doneScan"
    and l: "\<not> loading analyzeState"
    by (simp_all add: analyzeState_def sampleState_def)
  have b: "\<not> apiButtonEnabled analyzeState"
    using doneScan_fields(3)
    by (cases "apiCheck doneScan") (simp_all add: apiButtonEnabled_def s)
  have look: "realExternalLookup maliciousService (url doneScan)
                = Some (verdictResponse ''malicious'')"
    by (simp add: realExternalLookup_def maliciousService_def)
  have run: "scan (handleAnalyze sampleParser (\<lambda>u. True) sampleClock maliciousService
                ''scan-4'' ''11/2/2026, 9:00:01 AM'' analyzeState)
             = Some (updatedScan doneScan (verdictResponse ''malicious''))"
    by (rule handleAnalyze_mid_tier [OF _ _ _ _ s look])
       (simp_all add: i page_facts page_host page_safety)
  have c: "color (updatedScan doneScan (verdictResponse ''malicious'')) \<noteq> color doneScan"
    by (simp add: updatedScan_fields doneScan_def midScan_fields verdictResponse_def
          finalColor_def)
  have a: "apiCheck (updatedScan doneScan (verdictResponse ''malicious'')) \<noteq> apiCheck doneScan"
    by (simp add: updatedScan_fields doneScan_def verdictResponse_def didAllApisFail_def)
  show ?thesis
    using s b run c a
    by (simp add: i page_safety doneScan_fields updatedScan_fields verdictResponse_def
          finalTier_def)
qed

subsection \<open>Ranking\<close>

lemma tierOrder_inj: "tierOrder s = tierOrder t \<longleftrightarrow> s = t"
  by (cases s; cases t) (simp_all add: tierOrder_def)

lemma sortScans_value:
  assumes "getTime (timestamp a) = Some ta" and "getTime (timestamp b) = Some tb"
  shows "sortScans getTime a b =
     Some (if tier a \<noteq> tier b then tierOrder (tier a) - tierOrder (tier b)
           else if nullish (dislikes a) 0 \<noteq> nullish (dislikes b) 0
           then nullish (dislikes b) 0 - nullish (dislikes a) 0
           else tb - ta)"
  using assms by (simp add: sortScans_def Let_def numSub_def tierOrder_inj)

lemma priority_number:
  "k \<notin> set objectPrototypeKeys \<Longrightarrow> \<exists>p. priorityOrZero (tierPriority k) = Some p"
  by (simp add: tierPriority_def priorityOrZero_def split: option.splits)

lemma priority_inherited:
  "k \<in> set objectPrototypeKeys \<Longrightarrow> priorityOrZero (tierPriority k) = None"
  by (auto simp add: tierPriority_def priorityOrZero_def objectPrototypeKeys_def)

lemma priority_names:
  "priorityOrZero (tierPriority ''High Risk'') = Some 3"
  "priorityOrZero (tierPriority ''Be Careful'') = Some 2"
  "priorityOrZero (tierPriority ''Safe'') = Some 1"
  by (simp_all add: tierPriority_def priorityOrZero_def)

lemma sortScansCommunity_value:
  assumes "getTime (c_timestamp x) = Some tx" and "getTime (c_timestamp y) = Some ty"
    and "priorityOrZero (tierPriority (c_tier x)) = Some px"
    and "priorityOrZero (tierPriority (c_tier y)) = Some py"
  shows "sortScansCommunity getTime x y =
     Some (if py \<noteq> px then py - px
           else if nullish (c_dislikes y) 0 \<noteq> nullish (c_dislikes x) 0
           then nullish (c_dislikes y) 0 - nullish (c_dislikes x) 0
           else if nullish (c_likes y) 0 \<noteq> nullish (c_likes x) 0
           then nullish (c_likes y) 0 - nullish (c_likes x) 0
           else ty - tx)"
  using assms by (simp add: sortScansCommunity_def Let_def numSub_def)

lemma sortScansCommunity_inherited_tier:
  "c_tier x \<in> set objectPrototypeKeys \<or> c_tier y \<in> set objectPrototypeKeys \<Longrightarrow>
   sortScansCommunity getTime x y = None"
  by (auto simp add: sortScansCommunity_def numSub_def priority_inherited split: option.splits)

lemma sortScans_sign:
  assumes "getTime (timestamp a) = Some ta" and "getTime (timestamp b) = Some tb"
  shows "\<exists>v. sortScans getTime a b = Some v
     \<and> (v < 0 \<longleftrightarrow>
          tierOrder (tier a) < tierOrder (tier b)
          \<or> tier a = tier b
            \<and> (nullish (dislikes b) 0 < nullish (dislikes a) 0
               \<or> nullish (dislikes a) 0 = nullish (dislikes b) 0 \<and> tb < ta))
     \<and> (v = 0 \<longleftrightarrow>
          tier a = tier b \<and> nullish (dislikes a) 0 = nullish (dislikes b) 0 \<and> ta = tb)"
  unfolding sortScans_value [OF assms]
  using tierOrder_inj [of "tier a" "tier b"] by auto

lemma sortScansCommunity_sign:
  assumes "getTime (c_timestamp x) = Some tx" and "getTime (c_timestamp y) = Some ty"
    and "priorityOrZero (tierPriority (c_tier x)) = Some px"
    and "priorityOrZero (tierPriority (c_tier y)) = Some py"
  shows "\<exists>w. sortScansCommunity getTime x y = Some w
     \<and> (w < 0 \<longleftrightarrow>
          py < px
          \<or> px = py
            \<and> (nullish (c_dislikes y) 0 < nullish (c_dislikes x) 0
               \<or> nullish (c_dislikes x) 0 = nullish (c_dislikes y) 0
                 \<and> (nullish (c_likes y) 0 < nullish (c_likes x) 0
                    \<or> nullish (c_likes x) 0 = nullish (c_likes y) 0 \<and> ty < tx)))
     \<and> (w = 0 \<longleftrightarrow>
          px = py
          \<and> nullish (c_dislikes x) 0 = nullish (c_dislikes y) 0
          \<and> nullish (c_likes x) 0 = nullish (c_likes y) 0 \<and> tx = ty)"
  unfolding sortScansCommunity_value [OF assms] by auto

lemma sortScans_swap:
  assumes "getTime (timestamp a) = Some ta" and "getTime (timestamp b) = Some tb"
  shows "nullish (sortScans getTime b a) 0 = - nullish (sortScans getTime a b) 0"
  unfolding sortScans_value [OF assms] sortScans_value [OF assms(2) assms(1)]
  by (simp add: nullish_def)

lemma sortScansCommunity_swap:
  assumes "getTime (c_timestamp x) = Some tx" and "getTime (c_timestamp y) = Some ty"
    and "priorityOrZero (tierPriority (c_tier x)) = Some px"
    and "priorityOrZero (tierPriority (c_tier y)) = Some py"
  shows "nullish (sortScansCommunity getTime y x) 0 = - nullish (sortScansCommunity getTime x y) 0"
  unfolding sortScansCommunity_value [OF assms]
    sortScansCommunity_value [OF assms(2) assms(1) assms(4) assms(3)]
  by (simp add: nullish_def)

lemma sortScans_trans:
  assumes "getTime (timestamp a) = Some ta" and "getTime (timestamp b) = Some tb"
    and "getTime (timestamp c) = Some tc"
    and "nullish (sortScans getTime a b) 0 \<le> 0" and "nullish (sortScans getTime b c) 0 \<le> 0"
  shows "nullish (sortScans getTime a c) 0 \<le> 0"
  using assms(4,5) tierOrder_inj [of "tier a" "tier b"] tierOrder_inj [of "tier b" "tier c"]
    tierOrder_inj [of "tier a" "tier c"]
  unfolding sortScans_value [OF assms(1,2)] sortScans_value [OF assms(2,3)]
    sortScans_value [OF assms(1,3)]
  by (simp add: nullish_def split: if_splits)

lemma sortScansCommunity_trans:
  assumes "getTime (c_timestamp x) = Some tx" and "getTime (c_timestamp y) = Some ty"
    and "getTime (c_timestamp z) = Some tz"
    and "priorityOrZero (tierPriority (c_tier x)) = Some px"
    and "priorityOrZero (tierPriority (c_tier y)) = Some py"
    and "priorityOrZero (tierPriority (c_tier z)) = Some pz"
    and "nullish (sortScansCommunity getTime x y) 0 \<le> 0"
    and "nullish (sortScansCommunity getTime y z) 0 \<le> 0"
  shows "nullish (sortScansCommunity getTime x z) 0 \<le> 0"
  using assms(7,8)
  unfolding sortScansCommunity_value [OF assms(1,2,4,5)]
    sortScansCommunity_value [OF assms(2,3,5,6)]
    sortScansCommunity_value [OF assms(1,3,4,6)]
  by (simp add: nullish_def split: if_splits)

text \<open>
  C7, amended. On scans whose timestamps the date parser accepts and whose tier
  string names no property that the priority table inherits, each comparator is a
  lexicographic comparison with the riskiest first: by tier (High Risk, then Be
  Careful, then Safe), then by dislikes descending, in the community view then by likes
  descending, then by time descending. The result is negative exactly when the first
  scan comes first in that order and 0 exactly when the two agree on every key; it is
  0 on a scan and itself, changes sign when the arguments are swapped, and is
  transitive. Two scans that agree on every key compare as equal.
\<close>

theorem ranking_comparators_preorder:
  assumes "getTime (timestamp a) = Some ta" and "getTime (timestamp b) = Some tb"
    and "getTime (timestamp c) = Some tc"
    and "getTime (c_timestamp x) = Some tx" and "getTime (c_timestamp y) = Some ty"
    and "getTime (c_timestamp z) = Some tz"
    and "c_tier x \<notin> set objectPrototypeKeys" and "c_tier y \<notin> set objectPrototypeKeys"
    and "c_tier z \<notin> set objectPrototypeKeys"
  shows "tierOrder HighRisk < tierOrder BeCareful \<and> tierOrder BeCareful < tierOrder Safe
     \<and> priorityOrZero (tierPriority ''High Risk'') = Some 3
     \<and> priorityOrZero (tierPriority ''Be Careful'') = Some 2
     \<and> priorityOrZero (tierPriority ''Safe'') = Some 1
     \<and> (\<exists>v. sortScans getTime a b = Some v
          \<and> (v < 0 \<longleftrightarrow>
               tierOrder (tier a) < tierOrder (tier b)
               \<or> tier a = tier b
                 \<and> (nullish (dislikes b) 0 < nullish (dislikes a) 0
                    \<or> nullish (dislikes a) 0 = nullish (dislikes b) 0 \<and> tb < ta))
          \<and> (v = 0 \<longleftrightarrow>
               tier a = tier b \<and> nullish (dislikes a) 0 = nullish (dislikes b) 0 \<and> ta = tb))
     \<and> (\<exists>px py w. priorityOrZero (tierPriority (c_tier x)) = Some px
          \<and> priorityOrZero (tierPriority (c_tier y)) = Some py
          \<and> sortScansCommunity getTime x y = Some w
          \<and> (w < 0 \<longleftrightarrow>
               py < px
               \<or> px = py
                 \<and> (nullish (c_dislikes y) 0 < nullish (c_dislikes x) 0
                    \<or> nullish (c_dislikes x) 0 = nullish (c_dislikes y) 0
                      \<and> (nullish (c_likes y) 0 < nullish (c_likes x) 0
                         \<or> nullish (c_likes x) 0 = nullish (c_likes y) 0 \<and> ty < tx)))
          \<and> (w = 0 \<longleftrightarrow>
               px = py
               \<and> nullish (c_dislikes x) 0 = nullish (c_dislikes y) 0
               \<and> nullish (c_likes x) 0 = nullish (c_likes y) 0 \<and> tx = ty))
     \<and> sortScans getTime a a = Some 0
     \<and> nullish (sortScans getTime b a) 0 = - nullish (sortScans getTime a b) 0
     \<and> (nullish (sortScans getTime a b) 0 \<le> 0 \<and> nullish (sortScans getTime b c) 0 \<le> 0
          \<longrightarrow> nullish (sortScans getTime a c) 0 \<le> 0)
     \<and> sortScansCommunity getTime x x = Some 0
     \<and> nullish (sortScansCommunity getTime y x) 0 = - nullish (sortScansCommunity getTime x y) 0
     \<and> (nullish (sortScansCommunity getTime x y) 0 \<le> 0
          \<and> nullish (sortScansCommunity getTime y z) 0 \<le> 0
          \<longrightarrow> nullish (sortScansCommunity getTime x z) 0 \<le> 0)"
proof -
  obtain px where px: "priorityOrZero (tierPriority (c_tier x)) = Some px"
    using priority_number [OF assms(7)] by blast
  obtain py where py: "priorityOrZero (tierPriority (c_tier y)) = Some py"
    using priority_number [OF assms(8)] by blast
  obtain pz where pz: "priorityOrZero (tierPriority (c_tier z)) = Some pz"
    using priority_number [OF assms(9)] by blast
  have r1: "tierOrder HighRisk < tierOrder BeCareful"
    and r2: "tierOrder BeCareful < tierOrder Safe"
    by (simp_all add: tierOrder_def)
  note sign_a = sortScans_sign [of getTime a ta b tb, OF assms(1) assms(2)]
  have sign_x: "\<exists>px py w. priorityOrZero (tierPriority (c_tier x)) = Some px
          \<and> priorityOrZero (tierPriority (c_tier y)) = Some py
          \<and> sortScansCommunity getTime x y = Some w
          \<and> (w < 0 \<longleftrightarrow>
               py < px
               \<or> px = py
                 \<and> (nullish (c_dislikes y) 0 < nullish (c_dislikes x) 0
                    \<or> nullish (c_dislikes x) 0 = nullish (c_dislikes y) 0
                      \<and> (nullish (c_likes y) 0 < nullish (c_likes x) 0
                         \<or> nullish (c_likes x) 0 = nullish (c_likes y) 0 \<and> ty < tx)))
          \<and> (w = 0 \<longleftrightarrow>
               px = py
               \<and> nullish (c_dislikes x) 0 = nullish (c_dislikes y) 0
               \<and> nullish (c_likes x) 0 = nullish (c_likes y) 0 \<and> tx = ty)"
    using sortScansCommunity_sign [of getTime x tx y ty px py, OF assms(4) assms(5) px py] px py
    by blast
  have refl_a: "sortScans getTime a a = Some 0"
    using assms(1) by (simp add: sortScans_value [of getTime a ta a ta])
  have refl_x: "sortScansCommunity getTime x x = Some 0"
    using assms(4) px by (simp add: sortScansCommunity_value [of getTime x tx x tx px px])
  note swap_a = sortScans_swap [of getTime a ta b tb, OF assms(1) assms(2)]
  note swap_x = sortScansCommunity_swap [of getTime x tx y ty px py, OF assms(4) assms(5) px py]
  have trans_a: "nullish (sortScans getTime a b) 0 \<le> 0 \<and> nullish (sortScans getTime b c) 0 \<le> 0
          \<longrightarrow> nullish (sortScans getTime a c) 0 \<le> 0"
    using sortScans_trans [of getTime a ta b tb c tc] assms(1,2,3) by blast
  have trans_x: "nullish (sortScansCommunity getTime x y) 0 \<le> 0
          \<and> nullish (sortScansCommunity getTime y z) 0 \<le> 0
          \<longrightarrow> nullish (sortScansCommunity getTime x z) 0 \<le> 0"
    using sortScansCommunity_trans [of getTime x tx y ty z tz px py pz] assms(4,5,6) px py pz
    by blast
  show ?thesis
    by (intro conjI r1 r2 priority_names sign_a sign_x refl_a swap_a trans_a refl_x swap_x
          trans_x)
qed

theorem ranking_comparators_preorder_witness:
  "sampleClock (timestamp laterScan) = Some 1793610001000
   \<and> sampleClock (timestamp midScan) = Some 1793610000000
   \<and> sampleClock (c_timestamp savedScan) = Some 1793610000000
   \<and> c_tier savedScan \<notin> set objectPrototypeKeys
   \<and> nullish (sortScans sampleClock laterScan midScan) 0 < 0
   \<and> nullish (sortScans sampleClock midScan laterScan) 0 = - nullish (sortScans sampleClock laterScan midScan) 0
   \<and> sortScans sampleClock laterScan laterScan = Some 0
   \<and> sortScansCommunity sampleClock savedScan savedScan = Some 0"
proof -
  have l: "sampleClock (timestamp laterScan) = Some 1793610001000"
    by (simp add: laterScan_def sampleClock_def)
  have m: "sampleClock (timestamp midScan) = Some 1793610000000"
    by (simp add: midScan_fields sampleClock_def)
  have s: "sampleClock (c_timestamp savedScan) = Some 1793610000000"
    by (simp add: savedScan_def historyRecord_def midScan_fields sampleClock_def)
  have t: "c_tier savedScan \<notin> set objectPrototypeKeys"
    by (simp add: savedScan_def historyRecord_def midScan_fields tierName_def
          objectPrototypeKeys_def)
  have eq: "tier laterScan = tier midScan" "dislikes laterScan = dislikes midScan"
    by (simp_all add: laterScan_def)
  show ?thesis
    using l m s t
      ranking_comparators_preorder [of sampleClock laterScan 1793610001000 midScan
        1793610000000 midScan 1793610000000 savedScan 1793610000000 savedScan 1793610000000
        savedScan 1793610000000]
    by (auto simp add: eq nullish_def)
qed

text \<open>
  C7 as stated fails: the comparators are not antisymmetric, and the timestamp does not
  resolve every tie. Two different scans of the same second with the same tier and
  counters compare as equal in both directions, in both views.
\<close>

theorem equal_keys_leave_a_tie:
  "twinScan \<noteq> midScan
   \<and> sortScans sampleClock midScan twinScan = Some 0
   \<and> sortScans sampleClock twinScan midScan = Some 0
   \<and> historyRecord ''-Oabc124'' twinScan \<noteq> savedScan
   \<and> sortScansCommunity sampleClock savedScan (historyRecord ''-Oabc124'' twinScan) = Some 0
   \<and> sortScansCommunity sampleClock (historyRecord ''-Oabc124'' twinScan) savedScan = Some 0"
proof -
  have ne: "twinScan \<noteq> midScan"
  proof
    assume "twinScan = midScan"
    then have "scan_id twinScan = scan_id midScan" by simp
    then show False by (simp add: twinScan_def midScan_fields)
  qed
  have ne': "historyRecord ''-Oabc124'' twinScan \<noteq> savedScan"
  proof
    assume "historyRecord ''-Oabc124'' twinScan = savedScan"
    then have "c_id (historyRecord ''-Oabc124'' twinScan) = c_id savedScan" by simp
    then show False by (simp add: savedScan_def historyRecord_def)
  qed
  have t: "sampleClock (timestamp midScan) = Some 1793610000000"
    "sampleClock (timestamp twinScan) = Some 1793610000000"
    by (simp_all add: twinScan_def midScan_fields sampleClock_def)
  have p: "priorityOrZero (tierPriority ''Be Careful'') = Some 2"
    by (rule priority_names)
  have c: "sortScansCommunity sampleClock savedScan (historyRecord ''-Oabc124'' twinScan) = Some 0"
    "sortScansCommunity sampleClock (historyRecord ''-Oabc124'' twinScan) savedScan = Some 0"
    by (simp_all add: sortScansCommunity_def savedScan_def historyRecord_def twinScan_def
          midScan_fields sampleClock_def numSub_def Let_def tierName_def p)
  have eq: "tier twinScan = tier midScan" "dislikes twinScan = dislikes midScan"
    by (simp_all add: twinScan_def)
  have a: "sortScans sampleClock midScan twinScan = Some 0"
    "sortScans sampleClock twinScan midScan = Some 0"
    using sortScans_value [of sampleClock midScan 1793610000000 twinScan 1793610000000]
      sortScans_value [of sampleClock twinScan 1793610000000 midScan 1793610000000] t
    by (simp_all add: eq)
  show ?thesis
    using ne ne' a c by simp
qed

subsection \<open>Reaction counters\<close>

lemma countersOk_likeClick:
  "countersOk (likes h) (dislikes h) (userReaction h) \<Longrightarrow> likes h \<noteq> None \<Longrightarrow>
   dislikes h \<noteq> None \<Longrightarrow> likeClick h = (l, d, u) \<Longrightarrow> countersOk (Some l) (Some d) u"
  by (cases "userReaction h")
     (auto simp add: countersOk_def likeClick_def orZero_def Let_def
           split: option.splits if_splits Reaction.splits)

lemma countersOk_dislikeClick:
  "countersOk (likes h) (dislikes h) (userReaction h) \<Longrightarrow> likes h \<noteq> None \<Longrightarrow>
   dislikes h \<noteq> None \<Longrightarrow> dislikeClick h = (l, d, u) \<Longrightarrow> countersOk (Some l) (Some d) u"
  by (cases "userReaction h")
     (auto simp add: countersOk_def dislikeClick_def orZero_def Let_def
           split: option.splits if_splits Reaction.splits)

lemma countersOk_handleLike:
  "countersOk (c_likes c) (c_dislikes c) (c_userReaction c) \<Longrightarrow>
   handleLike c = (l, d, u) \<Longrightarrow> countersOk (Some l) (Some d) u"
  by (cases "c_userReaction c")
     (auto simp add: countersOk_def handleLike_def nullish_def Let_def
           split: option.splits if_splits Reaction.splits)

lemma countersOk_handleDislike:
  "countersOk (c_likes c) (c_dislikes c) (c_userReaction c) \<Longrightarrow>
   handleDislike c = (l, d, u) \<Longrightarrow> countersOk (Some l) (Some d) u"
  by (cases "c_userReaction c")
     (auto simp add: countersOk_def handleDislike_def nullish_def Let_def
           split: option.splits if_splits Reaction.splits)

lemma withReaction_fields:
  "likes (withReaction s (l, d, u)) = Some l"
  "dislikes (withReaction s (l, d, u)) = Some d"
  "userReaction (withReaction s (l, d, u)) = u"
  by (simp_all add: withReaction_def)

lemma c_withReaction_fields:
  "c_likes (c_withReaction s (l, d, u)) = Some l"
  "c_dislikes (c_withReaction s (l, d, u)) = Some d"
  "c_userReaction (c_withReaction s (l, d, u)) = u"
  by (simp_all add: c_withReaction_def)

lemma reachableCommunity_countersOk:
  "reachableCommunity c \<Longrightarrow> countersOk (c_likes c) (c_dislikes c) (c_userReaction c)"
proof (induction rule: reachableCommunity.induct)
  case (c_saved key URL newId now raw)
  show ?case
    by (simp add: historyRecord_def scoreUrl_fields countersOk_def)
next
  case (c_bare c)
  show ?case by (simp add: countersOk_def)
next
  case (c_liked h sc)
  obtain l d u where t: "handleLike sc = (l, d, u)" by (cases "handleLike sc")
  with c_liked.IH(2) have "countersOk (Some l) (Some d) u" by (rule countersOk_handleLike)
  then show ?case by (simp add: t c_withReaction_fields)
next
  case (c_disliked h sc)
  obtain l d u where t: "handleDislike sc = (l, d, u)" by (cases "handleDislike sc")
  with c_disliked.IH(2) have "countersOk (Some l) (Some d) u" by (rule countersOk_handleDislike)
  then show ?case by (simp add: t c_withReaction_fields)
qed

lemma reachableApp_countersOk:
  "reachableApp h \<Longrightarrow>
   countersOk (likes h) (dislikes h) (userReaction h) \<and> likes h \<noteq> None \<and> dislikes h \<noteq> None"
proof (induction rule: reachableApp.induct)
  case (scored URL newId now raw)
  show ?case by (simp add: scoreUrl_fields countersOk_def)
next
  case (stored s key)
  then show ?case by simp
next
  case (reconciled s ext)
  then show ?case by (simp add: updatedScan_def Let_def)
next
  case (liked s h)
  obtain l d u where t: "likeClick h = (l, d, u)" by (cases "likeClick h")
  with liked.IH(2) have "countersOk (Some l) (Some d) u"
    by (blast intro: countersOk_likeClick)
  then show ?case by (simp add: t withReaction_fields)
next
  case (disliked s h)
  obtain l d u where t: "dislikeClick h = (l, d, u)" by (cases "dislikeClick h")
  with disliked.IH(2) have "countersOk (Some l) (Some d) u"
    by (blast intro: countersOk_dislikeClick)
  then show ?case by (simp add: t withReaction_fields)
next
  case (loaded s g)
  from loaded.IH(2) show ?case
    by (auto simp add: withReaction_fields countersOk_def nullish_def split: option.splits)
next
  case (synced s c)
  from reachableCommunity_countersOk [OF synced.hyps(2)] show ?case
    by (auto simp add: withReaction_fields countersOk_def nullish_def split: option.splits)
qed

lemma handleLikeWrites_last:
  "last (handleLikeWrites sc) = c_withReaction sc (handleLike sc)"
  by (cases "handleLike sc") (simp add: handleLikeWrites_def c_withReaction_def)

lemma handleDislikeWrites_last:
  "last (handleDislikeWrites sc) = c_withReaction sc (handleDislike sc)"
  by (cases "handleDislike sc") (simp add: handleDislikeWrites_def c_withReaction_def)

text \<open>
  What holds of the counters. In every state between complete runs of the reaction
  handlers (in the main view from a freshly scored scan, in the community view from
  its stored record or from a record without counters), no counter is negative: not
  the stored one, not the displayed one, and not the one that the next click on the
  like or the dislike button stores.
\<close>

theorem reaction_counters_between_runs:
  assumes "reachableApp h" and "reachableCommunity c"
  shows "(\<exists>l d. likes h = Some l \<and> dislikes h = Some d \<and> 0 \<le> l \<and> 0 \<le> d)
     \<and> 0 \<le> orZero (likes h) \<and> 0 \<le> orZero (dislikes h)
     \<and> 0 \<le> fst (likeClick h) \<and> 0 \<le> fst (snd (likeClick h))
     \<and> 0 \<le> fst (dislikeClick h) \<and> 0 \<le> fst (snd (dislikeClick h))
     \<and> (case c_likes c of None \<Rightarrow> True | Some l \<Rightarrow> 0 \<le> l)
     \<and> (case c_dislikes c of None \<Rightarrow> True | Some d \<Rightarrow> 0 \<le> d)
     \<and> 0 \<le> nullish (c_likes c) 0 \<and> 0 \<le> nullish (c_dislikes c) 0
     \<and> 0 \<le> fst (handleLike c) \<and> 0 \<le> fst (snd (handleLike c))
     \<and> 0 \<le> fst (handleDislike c) \<and> 0 \<le> fst (snd (handleDislike c))"
proof -
  have a: "countersOk (likes h) (dislikes h) (userReaction h)"
    and n: "likes h \<noteq> None" "dislikes h \<noteq> None"
    using reachableApp_countersOk [OF assms(1)] by simp_all
  have b: "countersOk (c_likes c) (c_dislikes c) (c_userReaction c)"
    using assms(2) by (rule reachableCommunity_countersOk)
  have a1: "\<exists>l d. likes h = Some l \<and> dislikes h = Some d \<and> 0 \<le> l \<and> 0 \<le> d"
    using a n by (auto simp add: countersOk_def split: option.splits)
  have a2: "0 \<le> orZero (likes h) \<and> 0 \<le> orZero (dislikes h)"
    using a by (auto simp add: countersOk_def orZero_def split: option.splits)
  have a3: "0 \<le> fst (likeClick h) \<and> 0 \<le> fst (snd (likeClick h))"
    using countersOk_likeClick [OF a n, of "fst (likeClick h)" "fst (snd (likeClick h))"
        "snd (snd (likeClick h))"]
    by (simp add: countersOk_def)
  have a4: "0 \<le> fst (dislikeClick h) \<and> 0 \<le> fst (snd (dislikeClick h))"
    using countersOk_dislikeClick [OF a n, of "fst (dislikeClick h)" "fst (snd (dislikeClick h))"
        "snd (snd (dislikeClick h))"]
    by (simp add: countersOk_def)
  have b1: "(case c_likes c of None \<Rightarrow> True | Some l \<Rightarrow> 0 \<le> l)
     \<and> (case c_dislikes c of None \<Rightarrow> True | Some d \<Rightarrow> 0 \<le> d)"
    using b by (auto simp add: countersOk_def split: option.splits)
  have b2: "0 \<le> nullish (c_likes c) 0 \<and> 0 \<le> nullish (c_dislikes c) 0"
    using b by (auto simp add: countersOk_def nullish_def split: option.splits)
  have b3: "0 \<le> fst (handleLike c) \<and> 0 \<le> fst (snd (handleLike c))"
    using countersOk_handleLike [OF b, of "fst (handleLike c)" "fst (snd (handleLike c))"
        "snd (snd (handleLike c))"]
    by (simp add: countersOk_def)
  have b4: "0 \<le> fst (handleDislike c) \<and> 0 \<le> fst (snd (handleDislike c))"
    using countersOk_handleDislike [OF b, of "fst (handleDislike c)"
        "fst (snd (handleDislike c))" "snd (snd (handleDislike c))"]
    by (simp add: countersOk_def)
  show ?thesis using a1 a2 a3 a4 b1 b2 b3 b4 by simp
qed

theorem reaction_counters_between_runs_witness:
  "reachableApp likedScan \<and> reachableCommunity savedScan
   \<and> likes likedScan = Some 1 \<and> dislikes likedScan = Some 0
   \<and> likeClick likedScan = (0, 0, None)
   \<and> 0 \<le> fst (likeClick likedScan) \<and> 0 \<le> fst (snd (dislikeClick likedScan))
   \<and> 0 \<le> fst (handleLike savedScan)"
proof -
  have m: "reachableApp midScan"
    unfolding midScan_def by (rule reachableApp.scored)
  have a: "reachableApp likedScan"
    unfolding likedScan_def using m m by (rule reachableApp.liked)
  have b: "reachableCommunity savedScan"
    unfolding savedScan_def midScan_def by (rule reachableCommunity.c_saved)
  have v: "likeClick midScan = (1, 0, Some Like)"
    by (simp add: likeClick_def midScan_fields orZero_def)
  have f: "likes likedScan = Some 1" "dislikes likedScan = Some 0"
    "userReaction likedScan = Some Like"
    by (simp_all add: likedScan_def v withReaction_fields)
  have w: "likeClick likedScan = (0, 0, None)"
    by (simp add: likeClick_def f orZero_def)
  show ?thesis
    using a b f w reaction_counters_between_runs [OF a b] by simp
qed

text \<open>
  C9. The counters are to stay non-negative in every reachable state. The community
  view breaks this: its handlers do not clamp, and a run leaves the store between its
  writes in a state that the view shows. After one like the record has one like; the
  first write of the click that takes the like back stores 0 likes with the reaction
  still set, and a click on that record stores -1.
\<close>

theorem click_between_writes_stores_negative:
  "reachableCommunity likedSaved
   \<and> c_likes likedSaved = Some 1 \<and> c_userReaction likedSaved = Some Like
   \<and> hd (handleLikeWrites likedSaved) = likedSaved \<lparr> c_likes := Some 0 \<rparr>
   \<and> c_userReaction (hd (handleLikeWrites likedSaved)) = Some Like
   \<and> handleLike (hd (handleLikeWrites likedSaved)) = (- 1, 0, None)
   \<and> fst (handleLike (hd (handleLikeWrites likedSaved))) < 0"
proof -
  have s: "reachableCommunity savedScan"
    unfolding savedScan_def midScan_def by (rule reachableCommunity.c_saved)
  have r: "reachableCommunity likedSaved"
    unfolding likedSaved_def using s s by (rule reachableCommunity.c_liked)
  have f0: "c_likes savedScan = Some 0" "c_dislikes savedScan = Some 0"
    "c_userReaction savedScan = None"
    by (simp_all add: savedScan_def historyRecord_def midScan_fields)
  have v: "handleLike savedScan = (1, 0, Some Like)"
    by (simp add: handleLike_def f0 nullish_def)
  have f1: "c_likes likedSaved = Some 1" "c_dislikes likedSaved = Some 0"
    "c_userReaction likedSaved = Some Like"
    by (simp_all add: likedSaved_def v c_withReaction_fields)
  have w: "handleLike likedSaved = (0, 0, None)"
    by (simp add: handleLike_def f1 nullish_def)
  have h: "hd (handleLikeWrites likedSaved) = likedSaved \<lparr> c_likes := Some 0 \<rparr>"
    by (simp add: handleLikeWrites_def w)
  have x: "handleLike (likedSaved \<lparr> c_likes := Some 0 \<rparr>) = (- 1, 0, None)"
    by (simp add: handleLike_def f1 nullish_def)
  show ?thesis using r f1 h x by simp
qed

end
